theory Spec2Isabelle
  imports Complex_Main
begin

section \<open>JavaScript numbers\<close>

text \<open>
  The inventory and portion-pricing code computes with JavaScript numbers. A number is
  modelled as \<open>NaN\<close>, one of the two infinities, or a finite value. Finite values are
  exact rationals: the rounding error and the overflow of IEEE doubles are not modelled,
  and there is a single zero (the code never divides by a negative zero). The non-finite
  values are kept because the code can produce them: \<open>parseFloat('')\<close> is \<open>NaN\<close>,
  \<open>Math.min()\<close> of no arguments is \<open>Infinity\<close>, and every comparison with \<open>NaN\<close>
  is false.
\<close>

datatype jsnum = NaN | NegInf | Fin rat | PosInf

text \<open>\<open>a * b\<close>\<close>

fun js_mult :: "jsnum \<Rightarrow> jsnum \<Rightarrow> jsnum" where
  "js_mult NaN _ = NaN"
| "js_mult _ NaN = NaN"
| "js_mult (Fin a) (Fin b) = Fin (a * b)"
| "js_mult (Fin a) PosInf = (if a = 0 then NaN else if 0 < a then PosInf else NegInf)"
| "js_mult (Fin a) NegInf = (if a = 0 then NaN else if 0 < a then NegInf else PosInf)"
| "js_mult PosInf (Fin b) = (if b = 0 then NaN else if 0 < b then PosInf else NegInf)"
| "js_mult NegInf (Fin b) = (if b = 0 then NaN else if 0 < b then NegInf else PosInf)"
| "js_mult PosInf PosInf = PosInf"
| "js_mult PosInf NegInf = NegInf"
| "js_mult NegInf PosInf = NegInf"
| "js_mult NegInf NegInf = PosInf"

text \<open>\<open>a / b\<close>: a finite value divided by zero is an infinity, \<open>0 / 0\<close> is \<open>NaN\<close>.\<close>

fun js_div :: "jsnum \<Rightarrow> jsnum \<Rightarrow> jsnum" where
  "js_div NaN _ = NaN"
| "js_div _ NaN = NaN"
| "js_div (Fin a) (Fin b) =
     (if b = 0 then (if a = 0 then NaN else if 0 < a then PosInf else NegInf)
      else Fin (a / b))"
| "js_div (Fin a) PosInf = Fin 0"
| "js_div (Fin a) NegInf = Fin 0"
| "js_div PosInf (Fin b) = (if b < 0 then NegInf else PosInf)"
| "js_div NegInf (Fin b) = (if b < 0 then PosInf else NegInf)"
| "js_div PosInf PosInf = NaN"
| "js_div PosInf NegInf = NaN"
| "js_div NegInf PosInf = NaN"
| "js_div NegInf NegInf = NaN"

text \<open>\<open>a <= b\<close> and \<open>a > b\<close>: false as soon as one side is \<open>NaN\<close>.\<close>

fun js_le :: "jsnum \<Rightarrow> jsnum \<Rightarrow> bool" where
  "js_le NaN _ = False"
| "js_le _ NaN = False"
| "js_le NegInf _ = True"
| "js_le _ PosInf = True"
| "js_le (Fin a) (Fin b) = (a \<le> b)"
| "js_le (Fin a) NegInf = False"
| "js_le PosInf (Fin b) = False"
| "js_le PosInf NegInf = False"

fun js_gt :: "jsnum \<Rightarrow> jsnum \<Rightarrow> bool" where
  "js_gt NaN _ = False"
| "js_gt _ NaN = False"
| "js_gt (Fin a) (Fin b) = (b < a)"
| "js_gt PosInf PosInf = False"
| "js_gt PosInf _ = True"
| "js_gt NegInf _ = False"
| "js_gt (Fin a) NegInf = True"
| "js_gt (Fin a) PosInf = False"

text \<open>\<open>Math.round(x)\<close>: the nearest integer, a tie going up.\<close>

fun Math_round :: "jsnum \<Rightarrow> jsnum" where
  "Math_round (Fin a) = Fin (of_int \<lfloor>a + 1 / 2\<rfloor>)"
| "Math_round x = x"

text \<open>
  \<open>Math.min(...xs)\<close>: \<open>Infinity\<close> for no argument, \<open>NaN\<close> as soon as one argument is
  \<open>NaN\<close>, the least argument otherwise.
\<close>

fun js_min2 :: "jsnum \<Rightarrow> jsnum \<Rightarrow> jsnum" where
  "js_min2 NaN _ = NaN"
| "js_min2 _ NaN = NaN"
| "js_min2 a b = (if js_le a b then a else b)"

fun Math_min :: "jsnum list \<Rightarrow> jsnum" where
  "Math_min [] = PosInf"
| "Math_min (x # xs) = js_min2 x (Math_min xs)"

text \<open>Truthiness of a number, as \<open>||\<close> and \<open>if\<close> see it: \<open>0\<close> and \<open>NaN\<close> are falsy.\<close>

fun truthy :: "jsnum \<Rightarrow> bool" where
  "truthy NaN = False"
| "truthy (Fin a) = (a \<noteq> 0)"
| "truthy _ = True"

subsection \<open>parseFloat\<close>

text \<open>
  \<open>parseFloat(s)\<close> skips leading white space and reads the longest prefix that is a
  decimal literal: an optional sign, then \<open>Infinity\<close> or digits with an optional
  fraction and an optional exponent. What follows the literal is ignored, and a string
  with no such prefix gives \<open>NaN\<close>. Strings are lists of 8-bit characters here, so only
  the ASCII white space is skipped.
\<close>

definition isWhiteSpace :: "char \<Rightarrow> bool" where
  "isWhiteSpace c = ((of_char c :: nat) \<in> {9, 10, 11, 12, 13, 32})"

definition isDigit :: "char \<Rightarrow> bool" where
  "isDigit c = (48 \<le> (of_char c :: nat) \<and> (of_char c :: nat) \<le> 57)"

definition digitVal :: "char \<Rightarrow> nat" where
  "digitVal c = of_char c - 48"

fun digitsVal :: "nat \<Rightarrow> string \<Rightarrow> nat" where
  "digitsVal acc [] = acc"
| "digitsVal acc (c # cs) = digitsVal (10 * acc + digitVal c) cs"

text \<open>The exponent part \<open>e\<close>, \<open>e+\<close> or \<open>e-\<close> followed by at least one digit; 0 when absent.\<close>

definition exponentPart :: "string \<Rightarrow> int" where
  "exponentPart s =
     (case s of
        [] \<Rightarrow> 0
      | c # r \<Rightarrow>
          if c = CHR ''e'' \<or> c = CHR ''E'' then
            (case r of
               [] \<Rightarrow> 0
             | d # r' \<Rightarrow>
                 if d = CHR ''-'' then
                   (if takeWhile isDigit r' = [] then 0
                    else - int (digitsVal 0 (takeWhile isDigit r')))
                 else if d = CHR ''+'' then int (digitsVal 0 (takeWhile isDigit r'))
                 else int (digitsVal 0 (takeWhile isDigit r)))
          else 0)"

definition pow10 :: "int \<Rightarrow> rat" where
  "pow10 e = (if 0 \<le> e then 10 ^ nat e else 1 / 10 ^ nat (- e))"

definition unsignedLiteral :: "string \<Rightarrow> jsnum" where
  "unsignedLiteral u =
     (if take 8 u = ''Infinity'' then PosInf
      else
        let ip = takeWhile isDigit u;
            r1 = dropWhile isDigit u;
            fp = (case r1 of [] \<Rightarrow> [] | c # r \<Rightarrow> if c = CHR ''.'' then takeWhile isDigit r else []);
            r2 = (case r1 of [] \<Rightarrow> [] | c # r \<Rightarrow> if c = CHR ''.'' then dropWhile isDigit r else r1)
        in if ip = [] \<and> fp = [] then NaN
           else Fin ((of_nat (digitsVal 0 ip) + of_nat (digitsVal 0 fp) / 10 ^ length fp)
                      * pow10 (exponentPart r2)))"

definition parseFloat :: "string \<Rightarrow> jsnum" where
  "parseFloat s =
     (case dropWhile isWhiteSpace s of
        [] \<Rightarrow> NaN
      | c # r \<Rightarrow>
          if c = CHR ''-'' then js_mult (Fin (- 1)) (unsignedLiteral r)
          else if c = CHR ''+'' then unsignedLiteral r
          else unsignedLiteral (c # r))"

section \<open>Data model\<close>

text \<open>
  The rows of the store, with the fields the inventory code reads and writes. An
  optional field (\<open>defaultBottleSize?\<close>, \<open>fixedPrice?\<close>) is an \<open>option\<close>, \<open>None\<close> being
  \<open>undefined\<close>. Identifiers are strings.
\<close>

datatype InventoryUnitType = ml | pcs | grams | bottle | pack

record Category =
  c_id :: string
  c_name :: string

record MenuItem =
  m_id :: string
  m_name :: string
  m_price :: jsnum
  m_category :: string

record InventoryCategory =
  ic_id :: string
  ic_categoryId :: string
  ic_unitType :: InventoryUnitType
  ic_lowStockThreshold :: jsnum

record PortionOption =
  p_id :: string
  p_inventoryCategoryId :: string
  p_name :: string
  p_size :: jsnum
  p_priceMultiplier :: jsnum
  p_sortOrder :: nat
  p_fixedPrice :: "jsnum option"

record InventoryItem =
  ii_id :: string
  ii_menuItemId :: string
  ii_currentStock :: jsnum
  ii_defaultBottleSize :: "jsnum option"
  ii_unit :: InventoryUnitType
  ii_lowStockThreshold :: "jsnum option"

section \<open>Price derivation (PortionSelector)\<close>

text \<open>
  \<open>getPortionPrice\<close> of the portion selector. \<open>item\<close> and \<open>portions\<close> are the
  component's props and the portions of the item's category; \<open>portion\<close> is the argument.
  The base multiplier is the least multiplier of the category, the base unit price is the
  item's price divided by it, and the result is the rounded product with the portion's
  multiplier. The quotient and the product are exact here; in the code each is rounded to
  a double, so that \<open>price / m * m\<close> need not be the price again
  (\<open>10.5 / 0.07 * 0.07\<close> is \<open>10.499999999999998\<close>). Nothing below depends on the
  last bits of a product: the prices computed are exact in doubles, and a comparison of
  two prices of one item is preserved by rounding.
\<close>

definition getPortionPrice :: "MenuItem \<Rightarrow> PortionOption list \<Rightarrow> PortionOption \<Rightarrow> jsnum" where
  "getPortionPrice item portions portion =
     (let baseMultiplier = Math_min (map p_priceMultiplier portions);
          baseUnitPrice = js_div (m_price item) baseMultiplier
      in Math_round (js_mult baseUnitPrice (p_priceMultiplier portion)))"

section \<open>Default portion templates (InventoryManager)\<close>

record PortionTemplate =
  t_name :: string
  t_size :: jsnum
  t_multiplier :: jsnum

text \<open>
  \<open>DEFAULT_PORTIONS\<close> is an object with the two keys \<open>ml\<close> and \<open>pcs\<close>; a lookup with
  another unit type is \<open>undefined\<close>, here \<open>None\<close>.
\<close>

definition DEFAULT_PORTIONS :: "InventoryUnitType \<Rightarrow> PortionTemplate list option" where
  "DEFAULT_PORTIONS u =
     (case u of
        ml \<Rightarrow> Some
          [\<lparr>t_name = ''30ml (Peg)'', t_size = Fin 30, t_multiplier = Fin (1 / 2)\<rparr>,
           \<lparr>t_name = ''60ml (Large)'', t_size = Fin 60, t_multiplier = Fin 1\<rparr>,
           \<lparr>t_name = ''90ml'', t_size = Fin 90, t_multiplier = Fin (3 / 2)\<rparr>,
           \<lparr>t_name = ''180ml (QTR)'', t_size = Fin 180, t_multiplier = Fin (28 / 10)\<rparr>,
           \<lparr>t_name = ''375ml (Half)'', t_size = Fin 375, t_multiplier = Fin (55 / 10)\<rparr>,
           \<lparr>t_name = ''750ml (Full)'', t_size = Fin 750, t_multiplier = Fin 10\<rparr>,
           \<lparr>t_name = ''1000ml'', t_size = Fin 1000, t_multiplier = Fin (133 / 10)\<rparr>]
      | pcs \<Rightarrow> Some
          [\<lparr>t_name = ''1 Piece'', t_size = Fin 1, t_multiplier = Fin 1\<rparr>,
           \<lparr>t_name = ''Pack (20)'', t_size = Fin 20, t_multiplier = Fin 18\<rparr>]
      | _ \<Rightarrow> None)"

text \<open>\<open>DEFAULT_PORTIONS[selectedUnit] || DEFAULT_PORTIONS.pcs\<close>: an array is always truthy.\<close>

definition defaultPortions :: "InventoryUnitType \<Rightarrow> PortionTemplate list" where
  "defaultPortions selectedUnit =
     (case DEFAULT_PORTIONS selectedUnit of
        Some ps \<Rightarrow> ps
      | None \<Rightarrow> (case DEFAULT_PORTIONS pcs of Some ps \<Rightarrow> ps | None \<Rightarrow> []))"

section \<open>The store\<close>

record Store =
  categories :: "Category list"
  menuItems :: "MenuItem list"
  inventoryCategories :: "InventoryCategory list"
  inventoryItems :: "InventoryItem list"
  portionOptions :: "PortionOption list"
  itemPortionPrices :: "string \<times> string \<Rightarrow> jsnum option"

text \<open>
  The components never touch the tables themselves: they read the store's state and call
  its actions. A handler is modelled as the sequence of store calls it issues, in the
  order it issues them.
\<close>

datatype StoreCall =
    AddInventoryCategory string InventoryUnitType jsnum
  | AddPortionOption string string jsnum jsnum nat
  | AddInventoryItem string jsnum "jsnum option" InventoryUnitType jsnum
  | DeletePortionOption string
  | DeleteInventoryItem string
  | DeleteInventoryCategory string
  | AddStock string jsnum InventoryUnitType string
  | SetItemPortionPrice string string jsnum

text \<open>\<open>a + b\<close>\<close>

fun js_add :: "jsnum \<Rightarrow> jsnum \<Rightarrow> jsnum" where
  "js_add NaN _ = NaN"
| "js_add _ NaN = NaN"
| "js_add (Fin a) (Fin b) = Fin (a + b)"
| "js_add PosInf NegInf = NaN"
| "js_add NegInf PosInf = NaN"
| "js_add PosInf _ = PosInf"
| "js_add NegInf _ = NegInf"
| "js_add (Fin a) x = x"

text \<open>
  Modelled from the spec: the store module (\<open>@/store/useStore\<close>) that implements
  \<open>addInventoryCategory\<close>, \<open>addPortionOption\<close>, \<open>addInventoryItem\<close>,
  \<open>deletePortionOption\<close>, \<open>deleteInventoryItem\<close>, \<open>deleteInventoryCategory\<close>,
  \<open>addStock\<close> and \<open>setItemPortionPrice\<close> is not among the sources. An add action appends
  one row built from its argument, under an identifier the store chooses (the parameter
  \<open>gen\<close>, any function of the current state); a delete action removes the rows with
  the given identifier; \<open>addStock\<close> adds the signed quantity to the current stock of the
  menu item's inventory row; \<open>setItemPortionPrice\<close> records the price under the key
  (menu item, portion).
\<close>

fun perform :: "(Store \<Rightarrow> string) \<Rightarrow> StoreCall \<Rightarrow> Store \<Rightarrow> Store" where
  "perform gen (AddInventoryCategory categoryId unitType threshold) st =
     st\<lparr>inventoryCategories := inventoryCategories st @
        [\<lparr>ic_id = gen st, ic_categoryId = categoryId, ic_unitType = unitType,
          ic_lowStockThreshold = threshold\<rparr>]\<rparr>"
| "perform gen (AddPortionOption inventoryCategoryId name psize priceMultiplier sortOrder) st =
     st\<lparr>portionOptions := portionOptions st @
        [\<lparr>p_id = gen st, p_inventoryCategoryId = inventoryCategoryId, p_name = name,
          p_size = psize, p_priceMultiplier = priceMultiplier, p_sortOrder = sortOrder,
          p_fixedPrice = None\<rparr>]\<rparr>"
| "perform gen (AddInventoryItem menuItemId currentStock defaultBottleSize unit threshold) st =
     st\<lparr>inventoryItems := inventoryItems st @
        [\<lparr>ii_id = gen st, ii_menuItemId = menuItemId, ii_currentStock = currentStock,
          ii_defaultBottleSize = defaultBottleSize, ii_unit = unit,
          ii_lowStockThreshold = Some threshold\<rparr>]\<rparr>"
| "perform gen (DeletePortionOption i) st =
     st\<lparr>portionOptions := filter (\<lambda>p. p_id p \<noteq> i) (portionOptions st)\<rparr>"
| "perform gen (DeleteInventoryItem i) st =
     st\<lparr>inventoryItems := filter (\<lambda>ii. ii_id ii \<noteq> i) (inventoryItems st)\<rparr>"
| "perform gen (DeleteInventoryCategory i) st =
     st\<lparr>inventoryCategories := filter (\<lambda>ic. ic_id ic \<noteq> i) (inventoryCategories st)\<rparr>"
| "perform gen (AddStock menuItemId quantity unit notes) st =
     st\<lparr>inventoryItems :=
        map (\<lambda>ii. if ii_menuItemId ii = menuItemId
                  then ii\<lparr>ii_currentStock := js_add (ii_currentStock ii) quantity\<rparr> else ii)
          (inventoryItems st)\<rparr>"
| "perform gen (SetItemPortionPrice menuItemId portionId price) st =
     st\<lparr>itemPortionPrices := (itemPortionPrices st)((menuItemId, portionId) \<mapsto> price)\<rparr>"

fun performAll :: "(Store \<Rightarrow> string) \<Rightarrow> StoreCall list \<Rightarrow> Store \<Rightarrow> Store" where
  "performAll gen [] st = st"
| "performAll gen (c # cs) st = performAll gen cs (perform gen c st)"

text \<open>
  Modelled from the spec: the store's accessors \<open>getItemPortionPrice\<close> (the override of
  a menu item and portion, \<open>undefined\<close> when none was set) and
  \<open>getInventoryByMenuItemId\<close> (the inventory row of a menu item, as the components'
  own \<open>inventoryItems.find(ii => ii.menuItemId === id)\<close>) are not among the sources.
\<close>

definition getItemPortionPrice :: "Store \<Rightarrow> string \<Rightarrow> string \<Rightarrow> jsnum option" where
  "getItemPortionPrice st menuItemId portionId = itemPortionPrices st (menuItemId, portionId)"

definition getInventoryByMenuItemId :: "Store \<Rightarrow> string \<Rightarrow> InventoryItem option" where
  "getInventoryByMenuItemId st menuItemId =
     find (\<lambda>ii. ii_menuItemId ii = menuItemId) (inventoryItems st)"

subsection \<open>Low-stock monitor\<close>

text \<open>
  The components show the store's \<open>lowStockItems\<close>, which \<open>refreshLowStockItems\<close>
  recomputes; each entry carries the inventory row's identifier, the menu item's name,
  the current stock and the unit.
\<close>

record LowStockItem =
  ls_inventoryItemId :: string
  ls_menuItemName :: string
  ls_currentStock :: jsnum
  ls_unit :: InventoryUnitType

text \<open>
  Modelled from the spec: the category default of an inventory row. The store module is
  not among the sources. The default is the threshold of the inventory category of the
  category the row's menu item is in (found by the category's name, as the components
  find it), and \<open>undefined\<close> when one of the three is missing.
\<close>

definition categoryDefaultThreshold :: "Store \<Rightarrow> InventoryItem \<Rightarrow> jsnum option" where
  "categoryDefaultThreshold st invItem =
     (case find (\<lambda>m. m_id m = ii_menuItemId invItem) (menuItems st) of
        None \<Rightarrow> None
      | Some m \<Rightarrow>
          (case find (\<lambda>c. c_name c = m_category m) (categories st) of
             None \<Rightarrow> None
           | Some c \<Rightarrow>
               (case find (\<lambda>ic. ic_categoryId ic = c_id c) (inventoryCategories st) of
                  None \<Rightarrow> None
                | Some ic \<Rightarrow> Some (ic_lowStockThreshold ic))))"

text \<open>
  Modelled from the spec: the threshold of a row,
  \<open>item.lowStockThreshold ?? categoryDefaultThreshold ?? 5\<close>, where \<open>??\<close> takes the
  default only when the value is missing. The store module is not among the sources.
\<close>

definition lowStockThresholdOf :: "Store \<Rightarrow> InventoryItem \<Rightarrow> jsnum" where
  "lowStockThresholdOf st invItem =
     (case ii_lowStockThreshold invItem of
        Some t \<Rightarrow> t
      | None \<Rightarrow> (case categoryDefaultThreshold st invItem of Some d \<Rightarrow> d | None \<Rightarrow> Fin 5))"

text \<open>
  Modelled from the spec: the low-stock set (\<open>refreshLowStockItems\<close>, the spec's
  \<open>listLowStockItems\<close>), which is not among the sources. All inventory rows are
  scanned in their order and those with \<open>currentStock <= threshold\<close> are kept. Each
  is shown with the menu item's name (empty when the menu item is gone: the spec does not
  say), its stock and its unit.
\<close>

definition lowStockRows :: "Store \<Rightarrow> InventoryItem list" where
  "lowStockRows st =
     filter (\<lambda>ii. js_le (ii_currentStock ii) (lowStockThresholdOf st ii)) (inventoryItems st)"

text \<open>
  Modelled from the spec: the entries of \<open>listLowStockItems\<close>, one per row of the
  low-stock set, in the rows' order. The store module is not among the sources.
\<close>

definition listLowStockItems :: "Store \<Rightarrow> LowStockItem list" where
  "listLowStockItems st =
     map (\<lambda>ii.
           \<lparr>ls_inventoryItemId = ii_id ii,
            ls_menuItemName =
              (case find (\<lambda>m. m_id m = ii_menuItemId ii) (menuItems st) of
                 None \<Rightarrow> []
               | Some m \<Rightarrow> m_name m),
            ls_currentStock = ii_currentStock ii, ls_unit = ii_unit ii\<rparr>)
       (lowStockRows st)"

section \<open>Inventory manager\<close>

datatype toast = Error string | Success string

text \<open>The component's \<open>useState\<close> values that the handlers read and reset.\<close>

record FormState =
  showAddCategoryModal :: bool
  showAddStockModal :: bool
  selectedCategory :: string
  selectedUnit :: InventoryUnitType
  lowStockThreshold :: string
  stockMenuItemId :: string
  stockQuantity :: string
  stockNotes :: string
  bottleCount :: string
  bottleSize :: string
  customBottleSize :: string

subsection \<open>Registering a category\<close>

text \<open>
  The handler reads \<open>categories\<close> and \<open>menuItems\<close> from the state it was rendered with,
  and the new inventory category from the store's state after \<open>addInventoryCategory\<close>
  (\<open>useStore.getState()\<close>). The portions are seeded with their index in the template as
  sort order.
\<close>

definition seedPortionCalls :: "string \<Rightarrow> PortionTemplate list \<Rightarrow> StoreCall list" where
  "seedPortionCalls inventoryCategoryId defaults =
     map (\<lambda>(i, p). AddPortionOption inventoryCategoryId (t_name p) (t_size p) (t_multiplier p) i)
       (enumerate 0 defaults)"

definition seedItemCalls :: "InventoryUnitType \<Rightarrow> string \<Rightarrow> MenuItem list \<Rightarrow> StoreCall list" where
  "seedItemCalls unit threshold itemsInCategory =
     map (\<lambda>item. AddInventoryItem (m_id item) (Fin 0)
                   (if unit = ml then Some (Fin 750) else None) unit (parseFloat threshold))
       itemsInCategory"

definition handleAddInventoryCategory ::
  "(Store \<Rightarrow> string) \<Rightarrow> FormState \<Rightarrow> Store \<Rightarrow> toast option \<times> StoreCall list \<times> FormState" where
  "handleAddInventoryCategory gen ui st =
     (if selectedCategory ui = [] then (Some (Error ''Select a category''), [], ui)
      else
        case find (\<lambda>c. c_id c = selectedCategory ui) (categories st) of
          None \<Rightarrow> (None, [], ui)
        | Some cat \<Rightarrow>
            let addCat = AddInventoryCategory (selectedCategory ui) (selectedUnit ui)
                           (parseFloat (lowStockThreshold ui));
                st1 = perform gen addCat st;
                portionCalls =
                  (case find (\<lambda>ic. ic_categoryId ic = selectedCategory ui) (inventoryCategories st1) of
                     None \<Rightarrow> []
                   | Some newInvCat \<Rightarrow>
                       seedPortionCalls (ic_id newInvCat) (defaultPortions (selectedUnit ui)));
                itemsInCategory = filter (\<lambda>m. m_category m = c_name cat) (menuItems st)
            in (Some (Success (c_name cat @ '' added to inventory tracking'')),
                addCat # portionCalls @
                  seedItemCalls (selectedUnit ui) (lowStockThreshold ui) itemsInCategory,
                ui\<lparr>showAddCategoryModal := False, selectedCategory := []\<rparr>))"

subsection \<open>Adding stock\<close>

text \<open>
  The quantity comes from the bottle fields when both are filled in, from the direct
  quantity otherwise. The note of a bottle entry is the breakdown
  \<open>n bottles \<times> size ml\<close> (the multiplication sign is the character 0xD7), followed by the
  user's note.
\<close>

definition handleAddStock :: "FormState \<Rightarrow> Store \<Rightarrow> toast \<times> StoreCall list \<times> FormState" where
  "handleAddStock ui st =
     (if stockMenuItemId ui = [] \<or> (stockQuantity ui = [] \<and> bottleCount ui = [])
      then (Error ''Select item and enter quantity'', [], ui)
      else
        case getInventoryByMenuItemId st (stockMenuItemId ui) of
          None \<Rightarrow> (Error ''Item not tracked in inventory'', [], ui)
        | Some invItem \<Rightarrow>
            let totalQuantity =
                  (if bottleCount ui \<noteq> [] \<and> bottleSize ui \<noteq> [] then
                     js_mult (parseFloat (bottleCount ui))
                       (if bottleSize ui = ''custom'' then parseFloat (customBottleSize ui)
                        else parseFloat (bottleSize ui))
                   else if stockQuantity ui \<noteq> [] then parseFloat (stockQuantity ui)
                   else Fin 0)
            in if js_le totalQuantity (Fin 0) then (Error ''Enter a valid quantity'', [], ui)
               else
                 let notes =
                       (if bottleCount ui \<noteq> [] then
                          bottleCount ui @ '' bottles '' @ [CHR 0xD7] @ '' '' @
                          (if bottleSize ui = ''custom'' then customBottleSize ui else bottleSize ui) @
                          ''ml'' @ (if stockNotes ui \<noteq> [] then '' - '' @ stockNotes ui else [])
                        else stockNotes ui)
                 in (Success ''Stock added successfully'',
                     [AddStock (stockMenuItemId ui) totalQuantity (ii_unit invItem) notes],
                     ui\<lparr>showAddStockModal := False, stockMenuItemId := [], stockQuantity := [],
                        bottleCount := [], bottleSize := ''750'', customBottleSize := [],
                        stockNotes := []\<rparr>))"

subsection \<open>Removing a category\<close>

text \<open>
  \<open>confirmed\<close> is the user's answer to the confirmation dialog. Every read is from the
  state the component was rendered with.
\<close>

definition handleRemoveCategory :: "bool \<Rightarrow> string \<Rightarrow> Store \<Rightarrow> toast option \<times> StoreCall list" where
  "handleRemoveCategory confirmed catId st =
     (if \<not> confirmed then (None, [])
      else
        (Some (Success ''Category removed from inventory''),
         case find (\<lambda>ic. ic_categoryId ic = catId) (inventoryCategories st) of
           None \<Rightarrow> []
         | Some invCat \<Rightarrow>
             map (\<lambda>p. DeletePortionOption (p_id p))
               (filter (\<lambda>p. p_inventoryCategoryId p = ic_id invCat) (portionOptions st)) @
             (case find (\<lambda>c. c_id c = catId) (categories st) of
                None \<Rightarrow> []
              | Some cat \<Rightarrow>
                  concat (map (\<lambda>item.
                      case find (\<lambda>ii. ii_menuItemId ii = m_id item) (inventoryItems st) of
                        None \<Rightarrow> []
                      | Some invItem \<Rightarrow> [DeleteInventoryItem (ii_id invItem)])
                    (filter (\<lambda>m. m_category m = c_name cat) (menuItems st)))) @
             [DeleteInventoryCategory (ic_id invCat)]))"

subsection \<open>Low-stock flag of a card\<close>

text \<open>
  The flag that colours a stock card, not the low-stock set:
  \<open>const isLow = invItem.currentStock <= (invItem.lowStockThreshold || 5)\<close>, the
  right-hand operand first: \<open>||\<close> takes the default when the threshold is missing, zero
  or \<open>NaN\<close>.
\<close>

definition resolvedThreshold :: "InventoryItem \<Rightarrow> jsnum" where
  "resolvedThreshold invItem =
     (case ii_lowStockThreshold invItem of
        None \<Rightarrow> Fin 5
      | Some t \<Rightarrow> if truthy t then t else Fin 5)"

definition isLow :: "InventoryItem \<Rightarrow> bool" where
  "isLow invItem = js_le (ii_currentStock invItem) (resolvedThreshold invItem)"

section \<open>Per-item portion prices (PortionPriceEditor)\<close>

text \<open>
  \<open>newPrice !== currentPrice\<close>, for a number and a number or \<open>undefined\<close>: \<open>NaN\<close> differs
  from everything, itself included.
\<close>

definition strict_ne :: "jsnum \<Rightarrow> jsnum option \<Rightarrow> bool" where
  "strict_ne newPrice currentPrice =
     (case currentPrice of
        None \<Rightarrow> True
      | Some c \<Rightarrow> newPrice = NaN \<or> c = NaN \<or> newPrice \<noteq> c)"

text \<open>
  \<open>handleSave\<close>: for each portion in turn, the text of its price field is parsed (no
  entry or an empty one gives \<open>null\<close>), and the price is stored when it differs from the
  one the store holds at that moment. \<open>prices\<close> is the editor's local record of field
  texts by portion identifier.
\<close>

fun handleSave_calls ::
  "(Store \<Rightarrow> string) \<Rightarrow> MenuItem \<Rightarrow> (string \<Rightarrow> string option) \<Rightarrow> PortionOption list \<Rightarrow> Store
    \<Rightarrow> StoreCall list" where
  "handleSave_calls gen menuItem prices [] st = []"
| "handleSave_calls gen menuItem prices (portion # rest) st =
     (let newPrice = (case prices (p_id portion) of
                        None \<Rightarrow> None
                      | Some priceStr \<Rightarrow> if priceStr = [] then None else Some (parseFloat priceStr));
          currentPrice = getItemPortionPrice st (m_id menuItem) (p_id portion)
      in case newPrice of
           None \<Rightarrow> handleSave_calls gen menuItem prices rest st
         | Some np \<Rightarrow>
             if strict_ne np currentPrice then
               SetItemPortionPrice (m_id menuItem) (p_id portion) np #
               handleSave_calls gen menuItem prices rest
                 (perform gen (SetItemPortionPrice (m_id menuItem) (p_id portion) np) st)
             else handleSave_calls gen menuItem prices rest st)"

definition handleSave ::
  "(Store \<Rightarrow> string) \<Rightarrow> MenuItem \<Rightarrow> PortionOption list \<Rightarrow> (string \<Rightarrow> string option) \<Rightarrow> Store
    \<Rightarrow> toast option \<times> StoreCall list" where
  "handleSave gen menuItem portions prices st =
     (let calls = handleSave_calls gen menuItem prices portions st
      in (if calls \<noteq> [] then Some (Success (''Prices updated for '' @ m_name menuItem)) else None,
          calls))"

section \<open>Notions used to state the properties\<close>

text \<open>The store after a handler has run: its calls performed in order.\<close>

definition registerCategory :: "(Store \<Rightarrow> string) \<Rightarrow> FormState \<Rightarrow> Store \<Rightarrow> Store" where
  "registerCategory gen ui st = performAll gen (fst (snd (handleAddInventoryCategory gen ui st))) st"

definition removeCategory :: "(Store \<Rightarrow> string) \<Rightarrow> bool \<Rightarrow> string \<Rightarrow> Store \<Rightarrow> Store" where
  "removeCategory gen confirmed catId st =
     performAll gen (snd (handleRemoveCategory confirmed catId st)) st"

text \<open>The fields of a row other than the identifier the store gave it.\<close>

definition portionFields ::
  "PortionOption \<Rightarrow> string \<times> string \<times> jsnum \<times> jsnum \<times> nat \<times> jsnum option" where
  "portionFields p =
     (p_inventoryCategoryId p, p_name p, p_size p, p_priceMultiplier p, p_sortOrder p, p_fixedPrice p)"

definition itemFields ::
  "InventoryItem \<Rightarrow> string \<times> jsnum \<times> jsnum option \<times> InventoryUnitType \<times> jsnum option" where
  "itemFields ii =
     (ii_menuItemId ii, ii_currentStock ii, ii_defaultBottleSize ii, ii_unit ii, ii_lowStockThreshold ii)"

text \<open>The menu items of a category, found by the category's name as the handlers do.\<close>

definition itemsOfCategory :: "Store \<Rightarrow> Category \<Rightarrow> MenuItem list" where
  "itemsOfCategory st cat = filter (\<lambda>m. m_category m = c_name cat) (menuItems st)"

text \<open>The price multiplier of a template per unit of its size.\<close>

definition multiplierPerUnit :: "PortionTemplate \<Rightarrow> jsnum" where
  "multiplierPerUnit t = js_div (t_multiplier t) (t_size t)"

definition savePrices ::
  "(Store \<Rightarrow> string) \<Rightarrow> MenuItem \<Rightarrow> PortionOption list \<Rightarrow> (string \<Rightarrow> string option) \<Rightarrow> Store
    \<Rightarrow> Store" where
  "savePrices gen menuItem portions prices st =
     performAll gen (snd (handleSave gen menuItem portions prices st)) st"

text \<open>The quantity of the \<open>addStock\<close> call a handler issued, if it issued one.\<close>

definition submittedQuantity :: "StoreCall list \<Rightarrow> jsnum option" where
  "submittedQuantity calls =
     (case calls of
        [AddStock menuItemId quantity unit notes] \<Rightarrow> Some quantity
      | _ \<Rightarrow> None)"

text \<open>A store call with the free-text note of an \<open>addStock\<close> blanked.\<close>

fun withoutNotes :: "StoreCall \<Rightarrow> StoreCall" where
  "withoutNotes (AddStock menuItemId quantity unit notes) = AddStock menuItemId quantity unit []"
| "withoutNotes c = c"

section \<open>A worked scenario\<close>

text \<open>
  The category Drinks with one menu item, Whisky at Rs 150, before and after it is
  registered for tracking in millilitres with threshold 5. The identifier generator
  counts the rows in unary.
\<close>

definition exampleGen :: "Store \<Rightarrow> string" where
  "exampleGen st =
     ''id-'' @ replicate (length (inventoryCategories st) + length (inventoryItems st) +
                          length (portionOptions st)) (CHR ''i'')"

definition whisky :: MenuItem where
  "whisky = \<lparr>m_id = ''whisky-id'', m_name = ''Whisky'', m_price = Fin 150, m_category = ''Drinks''\<rparr>"

definition drinksStore :: Store where
  "drinksStore =
     \<lparr>categories = [\<lparr>c_id = ''c1'', c_name = ''Drinks''\<rparr>], menuItems = [whisky],
      inventoryCategories = [], inventoryItems = [], portionOptions = [],
      itemPortionPrices = (\<lambda>k. None)\<rparr>"

definition drinksForm :: FormState where
  "drinksForm =
     \<lparr>showAddCategoryModal = True, showAddStockModal = False, selectedCategory = ''c1'',
      selectedUnit = ml, lowStockThreshold = ''5'', stockMenuItemId = [], stockQuantity = [],
      stockNotes = [], bottleCount = [], bottleSize = ''750'', customBottleSize = []\<rparr>"

definition drinksTracked :: Store where
  "drinksTracked = registerCategory exampleGen drinksForm drinksStore"


text \<open>Stock forms for Whisky: three bottles of 750 ml, 2250 ml entered directly, and three
  bottles of a custom size that was left empty.\<close>

definition bottleForm :: FormState where
  "bottleForm =
     drinksForm\<lparr>showAddStockModal := True, stockMenuItemId := ''whisky-id'', bottleCount := ''3'',
       bottleSize := ''750'', stockQuantity := ''10''\<rparr>"

definition directForm :: FormState where
  "directForm =
     drinksForm\<lparr>showAddStockModal := True, stockMenuItemId := ''whisky-id'', bottleCount := [],
       bottleSize := ''750'', stockQuantity := ''2250''\<rparr>"

definition customEmptyForm :: FormState where
  "customEmptyForm =
     drinksForm\<lparr>showAddStockModal := True, stockMenuItemId := ''whisky-id'', bottleCount := ''3'',
       bottleSize := ''custom'', customBottleSize := [], stockQuantity := []\<rparr>"

text \<open>The price editor's fields for Whisky: Rs 999 entered for the first (30 ml) portion.\<close>

definition pegPrices :: "string \<Rightarrow> string option" where
  "pegPrices = [''id-i'' \<mapsto> ''999'']"

definition overrideStore :: Store where
  "overrideStore = savePrices exampleGen whisky (portionOptions drinksTracked) pegPrices drinksTracked"

text \<open>
  A second category, Snacks, added to the store in which Drinks is tracked: two menu
  items, to be registered in grams with threshold 10.
\<close>

definition snacksStore :: Store where
  "snacksStore =
     drinksTracked
       \<lparr>categories := categories drinksTracked @ [\<lparr>c_id = ''c2'', c_name = ''Snacks''\<rparr>],
        menuItems := menuItems drinksTracked @
          [\<lparr>m_id = ''momo-id'', m_name = ''Momo'', m_price = Fin 120, m_category = ''Snacks''\<rparr>,
           \<lparr>m_id = ''chips-id'', m_name = ''Chips'', m_price = Fin 80, m_category = ''Snacks''\<rparr>]\<rparr>"

definition snacksForm :: FormState where
  "snacksForm = drinksForm\<lparr>selectedCategory := ''c2'', selectedUnit := grams, lowStockThreshold := ''10''\<rparr>"

text \<open>
  The store in which Drinks is tracked, with the threshold and the stock of its inventory
  rows set: a missing threshold leaves the category's threshold, 5, in force.
\<close>

definition stockedStore :: "jsnum option \<Rightarrow> rat \<Rightarrow> Store" where
  "stockedStore threshold stock =
     drinksTracked
       \<lparr>inventoryItems :=
          map (\<lambda>ii. ii\<lparr>ii_lowStockThreshold := threshold, ii_currentStock := Fin stock\<rparr>)
            (inventoryItems drinksTracked)\<rparr>"


section \<open>Evaluation lemmas\<close>

lemma floor_rat_numeral [simp]:
  "\<lfloor>numeral a / numeral b :: rat\<rfloor> = numeral a div numeral b"
  by (metis floor_divide_of_int_eq of_int_numeral)

lemmas parseFloat_eval = parseFloat_def unsignedLiteral_def isDigit_def isWhiteSpace_def
  digitVal_def exponentPart_def pow10_def

lemma parseFloat_empty: "parseFloat [] = NaN"
  by (simp add: parseFloat_def)

lemma parseFloat_3: "parseFloat ''3'' = Fin 3"
  by (simp add: parseFloat_eval)

lemma parseFloat_5: "parseFloat ''5'' = Fin 5"
  by (simp add: parseFloat_eval)

lemma parseFloat_750: "parseFloat ''750'' = Fin 750"
  by (simp add: parseFloat_eval)

lemma parseFloat_999: "parseFloat ''999'' = Fin 999"
  by (simp add: parseFloat_eval)

lemma parseFloat_2250: "parseFloat ''2250'' = Fin 2250"
  by (simp add: parseFloat_eval)

lemma getPortionPrice_finite:
  assumes "m_price item = Fin b" "Math_min (map p_priceMultiplier portions) = Fin m" "m \<noteq> 0"
    "p_priceMultiplier portion = Fin k"
  shows "getPortionPrice item portions portion = Fin (of_int \<lfloor>b / m * k + 1 / 2\<rfloor>)"
  using assms by (simp add: getPortionPrice_def)

lemma drinksTracked_portions:
  "portionOptions drinksTracked =
    [\<lparr>p_id = ''id-i'', p_inventoryCategoryId = ''id-'', p_name = ''30ml (Peg)'', p_size = Fin 30,
       p_priceMultiplier = Fin (1 / 2), p_sortOrder = 0, p_fixedPrice = None\<rparr>,
     \<lparr>p_id = ''id-ii'', p_inventoryCategoryId = ''id-'', p_name = ''60ml (Large)'', p_size = Fin 60,
       p_priceMultiplier = Fin 1, p_sortOrder = 1, p_fixedPrice = None\<rparr>,
     \<lparr>p_id = ''id-iii'', p_inventoryCategoryId = ''id-'', p_name = ''90ml'', p_size = Fin 90,
       p_priceMultiplier = Fin (3 / 2), p_sortOrder = 2, p_fixedPrice = None\<rparr>,
     \<lparr>p_id = ''id-iiii'', p_inventoryCategoryId = ''id-'', p_name = ''180ml (QTR)'', p_size = Fin 180,
       p_priceMultiplier = Fin (28 / 10), p_sortOrder = 3, p_fixedPrice = None\<rparr>,
     \<lparr>p_id = ''id-iiiii'', p_inventoryCategoryId = ''id-'', p_name = ''375ml (Half)'', p_size = Fin 375,
       p_priceMultiplier = Fin (55 / 10), p_sortOrder = 4, p_fixedPrice = None\<rparr>,
     \<lparr>p_id = ''id-iiiiii'', p_inventoryCategoryId = ''id-'', p_name = ''750ml (Full)'', p_size = Fin 750,
       p_priceMultiplier = Fin 10, p_sortOrder = 5, p_fixedPrice = None\<rparr>,
     \<lparr>p_id = ''id-iiiiiii'', p_inventoryCategoryId = ''id-'', p_name = ''1000ml'', p_size = Fin 1000,
       p_priceMultiplier = Fin (133 / 10), p_sortOrder = 6, p_fixedPrice = None\<rparr>]"
  by code_simp

lemma drinksTracked_items:
  "inventoryItems drinksTracked =
     [\<lparr>ii_id = ''id-iiiiiiii'', ii_menuItemId = ''whisky-id'', ii_currentStock = Fin 0,
       ii_defaultBottleSize = Some (Fin 750), ii_unit = ml, ii_lowStockThreshold = Some (Fin 5)\<rparr>]"
  by code_simp

lemma drinksTracked_categories:
  "inventoryCategories drinksTracked =
     [\<lparr>ic_id = ''id-'', ic_categoryId = ''c1'', ic_unitType = ml, ic_lowStockThreshold = Fin 5\<rparr>]"
  by code_simp

lemma drinksTracked_menu:
  "categories drinksTracked = [\<lparr>c_id = ''c1'', c_name = ''Drinks''\<rparr>]"
  "menuItems drinksTracked = [whisky]"
  by code_simp+

lemma snacksStore_tables:
  "inventoryCategories snacksStore = inventoryCategories drinksTracked"
  "inventoryItems snacksStore = inventoryItems drinksTracked"
  "portionOptions snacksStore = portionOptions drinksTracked"
  "categories snacksStore = [\<lparr>c_id = ''c1'', c_name = ''Drinks''\<rparr>, \<lparr>c_id = ''c2'', c_name = ''Snacks''\<rparr>]"
  "itemsOfCategory snacksStore \<lparr>c_id = ''c2'', c_name = ''Snacks''\<rparr> =
     [\<lparr>m_id = ''momo-id'', m_name = ''Momo'', m_price = Fin 120, m_category = ''Snacks''\<rparr>,
      \<lparr>m_id = ''chips-id'', m_name = ''Chips'', m_price = Fin 80, m_category = ''Snacks''\<rparr>]"
  by (simp_all add: snacksStore_def itemsOfCategory_def drinksTracked_menu whisky_def)

section \<open>Price derivation\<close>

text \<open>
  Claim C8. For an item with a non-negative base price in a category whose least
  multiplier is positive, a portion with the greater multiplier never gets the smaller
  computed price.
\<close>

theorem portion_price_monotone:
  assumes "m_price item = Fin b" and "0 \<le> b"
    and "Math_min (map p_priceMultiplier portions) = Fin m" and "0 < m"
    and "p_priceMultiplier A = Fin a" and "p_priceMultiplier B = Fin c"
    and "js_gt (p_priceMultiplier A) (p_priceMultiplier B)"
  shows "js_le (getPortionPrice item portions B) (getPortionPrice item portions A)"
proof -
  have pa: "getPortionPrice item portions A = Fin (of_int \<lfloor>b / m * a + 1 / 2\<rfloor>)"
    using assms by (intro getPortionPrice_finite) auto
  have pb: "getPortionPrice item portions B = Fin (of_int \<lfloor>b / m * c + 1 / 2\<rfloor>)"
    using assms by (intro getPortionPrice_finite) auto
  have "c < a" using assms by simp
  moreover have "0 \<le> b / m" using assms by simp
  ultimately have "b / m * c \<le> b / m * a" by (intro mult_left_mono) auto
  then have "\<lfloor>b / m * c + 1 / 2\<rfloor> \<le> \<lfloor>b / m * a + 1 / 2\<rfloor>" by (intro floor_mono) simp
  then show ?thesis by (simp add: pa pb)
qed

theorem portion_price_monotone_witness:
  "js_gt (p_priceMultiplier (portionOptions drinksTracked ! 5))
         (p_priceMultiplier (portionOptions drinksTracked ! 3)) \<and>
   js_le (getPortionPrice whisky (portionOptions drinksTracked) (portionOptions drinksTracked ! 3))
         (getPortionPrice whisky (portionOptions drinksTracked) (portionOptions drinksTracked ! 5))"
proof -
  let ?ps = "portionOptions drinksTracked"
  have h1: "m_price whisky = Fin 150" by (simp add: whisky_def)
  have h2: "(0::rat) \<le> 150" by simp
  have h3: "Math_min (map p_priceMultiplier ?ps) = Fin (1 / 2)" by (simp add: drinksTracked_portions)
  have h4: "(0::rat) < 1 / 2" by simp
  have h5: "p_priceMultiplier (?ps ! 5) = Fin 10" by (simp add: drinksTracked_portions)
  have h6: "p_priceMultiplier (?ps ! 3) = Fin (28 / 10)" by (simp add: drinksTracked_portions)
  have h7: "js_gt (p_priceMultiplier (?ps ! 5)) (p_priceMultiplier (?ps ! 3))"
    by (simp add: drinksTracked_portions)
  show ?thesis using portion_price_monotone [OF h1 h2 h3 h4 h5 h6 h7] h7 by simp
qed

text \<open>
  Claim C2, as the code has it. With the default millilitre ladder seeded and an item
  priced at 150, the base price is the price of the smallest portion (30 ml, multiplier
  0.5): the 30 ml portion costs 150, the 60 ml portion 300 and the 750 ml portion 3000.
\<close>

theorem whisky_scenario_prices:
  assumes "map p_priceMultiplier portions = map t_multiplier (defaultPortions ml)"
    and "m_price item = Fin 150"
  shows "(p_priceMultiplier portion = Fin (1 / 2) \<longrightarrow> getPortionPrice item portions portion = Fin 150) \<and>
         (p_priceMultiplier portion = Fin 1 \<longrightarrow> getPortionPrice item portions portion = Fin 300) \<and>
         (p_priceMultiplier portion = Fin 10 \<longrightarrow> getPortionPrice item portions portion = Fin 3000)"
proof -
  have m: "Math_min (map p_priceMultiplier portions) = Fin (1 / 2)"
    unfolding assms(1) by (simp add: defaultPortions_def DEFAULT_PORTIONS_def)
  have g: "p_priceMultiplier portion = Fin k \<Longrightarrow>
      getPortionPrice item portions portion = Fin (of_int \<lfloor>150 / (1 / 2) * k + 1 / 2\<rfloor>)" for k
    using getPortionPrice_finite [OF assms(2) m] by simp
  show ?thesis
    using g [of "1 / 2"] g [of 1] g [of 10] by simp
qed

theorem whisky_scenario_prices_witness:
  "map p_priceMultiplier (portionOptions drinksTracked) = map t_multiplier (defaultPortions ml) \<and>
   m_price whisky = Fin 150 \<and>
   getPortionPrice whisky (portionOptions drinksTracked) (portionOptions drinksTracked ! 0) = Fin 150 \<and>
   getPortionPrice whisky (portionOptions drinksTracked) (portionOptions drinksTracked ! 5) = Fin 3000"
proof -
  let ?ps = "portionOptions drinksTracked"
  have h1: "map p_priceMultiplier ?ps = map t_multiplier (defaultPortions ml)"
    by (simp add: drinksTracked_portions defaultPortions_def DEFAULT_PORTIONS_def)
  have h2: "m_price whisky = Fin 150" by (simp add: whisky_def)
  have a: "p_priceMultiplier (?ps ! 0) = Fin (1 / 2)" by (simp add: drinksTracked_portions)
  have b: "p_priceMultiplier (?ps ! 5) = Fin 10" by (simp add: drinksTracked_portions)
  show ?thesis
    using whisky_scenario_prices [OF h1 h2, where portion = "?ps ! 0"]
      whisky_scenario_prices [OF h1 h2, where portion = "?ps ! 5"]
      h1 h2 a b by simp
qed

theorem whisky_scenario_counterexample:
  "\<not> (getPortionPrice whisky (portionOptions drinksTracked) (portionOptions drinksTracked ! 0) = Fin 75 \<and>
      getPortionPrice whisky (portionOptions drinksTracked) (portionOptions drinksTracked ! 5) = Fin 1500)"
  by code_simp

section \<open>Registering and removing a category\<close>

lemma performAll_append:
  "performAll gen (xs @ ys) st = performAll gen ys (performAll gen xs st)"
  by (induction xs arbitrary: st) auto

lemma seedPortions_tables:
  "\<exists>new. portionOptions (performAll gen
            (map (\<lambda>(i, p). AddPortionOption icid (t_name p) (t_size p) (t_multiplier p) i) xs) st)
          = portionOptions st @ new \<and>
        map portionFields new =
          map (\<lambda>(i, p). (icid, t_name p, t_size p, t_multiplier p, i, None)) xs"
proof (induction xs arbitrary: st)
  case Nil
  then show ?case by simp
next
  case (Cons x xs)
  obtain i p where x: "x = (i, p)" by (cases x)
  let ?c = "AddPortionOption icid (t_name p) (t_size p) (t_multiplier p) i"
  from Cons.IH [of "perform gen ?c st"] obtain new where
    n: "portionOptions (performAll gen
            (map (\<lambda>(i, p). AddPortionOption icid (t_name p) (t_size p) (t_multiplier p) i) xs)
            (perform gen ?c st)) = portionOptions (perform gen ?c st) @ new"
       "map portionFields new = map (\<lambda>(i, p). (icid, t_name p, t_size p, t_multiplier p, i, None)) xs"
    by blast
  let ?row = "\<lparr>p_id = gen st, p_inventoryCategoryId = icid, p_name = t_name p,
          p_size = t_size p, p_priceMultiplier = t_multiplier p, p_sortOrder = i,
          p_fixedPrice = None\<rparr>"
  have "portionOptions (performAll gen
            (map (\<lambda>(i, p). AddPortionOption icid (t_name p) (t_size p) (t_multiplier p) i) (x # xs)) st)
        = portionOptions st @ (?row # new)"
    using n(1) by (simp add: x)
  moreover have "map portionFields (?row # new) =
      map (\<lambda>(i, p). (icid, t_name p, t_size p, t_multiplier p, i, None)) (x # xs)"
    using n(2) by (simp add: x portionFields_def)
  ultimately show ?case by blast
qed

lemma seedPortions_frame:
  "inventoryCategories (performAll gen
      (map (\<lambda>(i, p). AddPortionOption icid (t_name p) (t_size p) (t_multiplier p) i) xs) st)
     = inventoryCategories st \<and>
   inventoryItems (performAll gen
      (map (\<lambda>(i, p). AddPortionOption icid (t_name p) (t_size p) (t_multiplier p) i) xs) st)
     = inventoryItems st \<and>
   categories (performAll gen
      (map (\<lambda>(i, p). AddPortionOption icid (t_name p) (t_size p) (t_multiplier p) i) xs) st)
     = categories st \<and>
   menuItems (performAll gen
      (map (\<lambda>(i, p). AddPortionOption icid (t_name p) (t_size p) (t_multiplier p) i) xs) st)
     = menuItems st"
  by (induction xs arbitrary: st) (auto split: prod.splits)

lemma seedItems_tables:
  "\<exists>new. inventoryItems (performAll gen (seedItemCalls u thr items) st) = inventoryItems st @ new \<and>
        map itemFields new =
          map (\<lambda>item. (m_id item, Fin 0, if u = ml then Some (Fin 750) else None, u,
                        Some (parseFloat thr))) items"
proof (induction items arbitrary: st)
  case Nil
  then show ?case by (simp add: seedItemCalls_def)
next
  case (Cons item items)
  let ?c = "AddInventoryItem (m_id item) (Fin 0) (if u = ml then Some (Fin 750) else None) u
              (parseFloat thr)"
  from Cons.IH [of "perform gen ?c st"] obtain new where
    n: "inventoryItems (performAll gen (seedItemCalls u thr items) (perform gen ?c st))
          = inventoryItems (perform gen ?c st) @ new"
       "map itemFields new =
          map (\<lambda>item. (m_id item, Fin 0, if u = ml then Some (Fin 750) else None, u,
                        Some (parseFloat thr))) items"
    by blast
  let ?row = "\<lparr>ii_id = gen st, ii_menuItemId = m_id item, ii_currentStock = Fin 0,
          ii_defaultBottleSize = (if u = ml then Some (Fin 750) else None), ii_unit = u,
          ii_lowStockThreshold = Some (parseFloat thr)\<rparr>"
  have "inventoryItems (performAll gen (seedItemCalls u thr (item # items)) st)
          = inventoryItems st @ (?row # new)"
    using n(1) by (simp add: seedItemCalls_def)
  moreover have "map itemFields (?row # new) =
          map (\<lambda>item. (m_id item, Fin 0, if u = ml then Some (Fin 750) else None, u,
                        Some (parseFloat thr))) (item # items)"
    using n(2) by (simp add: itemFields_def)
  ultimately show ?case by blast
qed

lemma seedItems_frame:
  "inventoryCategories (performAll gen (seedItemCalls u thr items) st) = inventoryCategories st \<and>
   portionOptions (performAll gen (seedItemCalls u thr items) st) = portionOptions st \<and>
   categories (performAll gen (seedItemCalls u thr items) st) = categories st \<and>
   menuItems (performAll gen (seedItemCalls u thr items) st) = menuItems st"
  by (induction items arbitrary: st) (auto simp: seedItemCalls_def)


lemma find_snoc:
  "find P (xs @ [y]) = (case find P xs of None \<Rightarrow> (if P y then Some y else None) | Some x \<Rightarrow> Some x)"
  by (induction xs) auto

text \<open>The identifier the seeded portions are linked to: the first inventory category of
  the category after the new one was appended.\<close>

lemma register_calls:
  assumes "selectedCategory ui \<noteq> []"
    and "find (\<lambda>c. c_id c = selectedCategory ui) (categories st) = Some cat"
  shows "fst (snd (handleAddInventoryCategory gen ui st)) =
           AddInventoryCategory (selectedCategory ui) (selectedUnit ui) (parseFloat (lowStockThreshold ui)) #
           seedPortionCalls
             (case find (\<lambda>ic. ic_categoryId ic = selectedCategory ui) (inventoryCategories st) of
                None \<Rightarrow> gen st | Some ic \<Rightarrow> ic_id ic)
             (defaultPortions (selectedUnit ui)) @
           seedItemCalls (selectedUnit ui) (lowStockThreshold ui) (itemsOfCategory st cat)"
  using assms
  by (simp add: handleAddInventoryCategory_def Let_def find_snoc itemsOfCategory_def
      split: option.splits)

lemma register_inventoryCategories:
  assumes "selectedCategory ui \<noteq> []"
    and "find (\<lambda>c. c_id c = selectedCategory ui) (categories st) = Some cat"
  shows "inventoryCategories (registerCategory gen ui st) =
           inventoryCategories st @
             [\<lparr>ic_id = gen st, ic_categoryId = selectedCategory ui, ic_unitType = selectedUnit ui,
               ic_lowStockThreshold = parseFloat (lowStockThreshold ui)\<rparr>]"
  unfolding registerCategory_def register_calls [OF assms]
  by (simp add: performAll_append seedItems_frame seedPortionCalls_def seedPortions_frame)

lemma register_portionOptions:
  assumes "selectedCategory ui \<noteq> []"
    and "find (\<lambda>c. c_id c = selectedCategory ui) (categories st) = Some cat"
  shows "\<exists>new. portionOptions (registerCategory gen ui st) = portionOptions st @ new \<and>
           map portionFields new =
             map (\<lambda>(i, p).
                 (case find (\<lambda>ic. ic_categoryId ic = selectedCategory ui) (inventoryCategories st) of
                    None \<Rightarrow> gen st | Some ic \<Rightarrow> ic_id ic,
                  t_name p, t_size p, t_multiplier p, i, None))
               (enumerate 0 (defaultPortions (selectedUnit ui)))"
proof -
  let ?c = "AddInventoryCategory (selectedCategory ui) (selectedUnit ui) (parseFloat (lowStockThreshold ui))"
  let ?icid = "case find (\<lambda>ic. ic_categoryId ic = selectedCategory ui) (inventoryCategories st) of
                None \<Rightarrow> gen st | Some ic \<Rightarrow> ic_id ic"
  from seedPortions_tables [of gen ?icid "enumerate 0 (defaultPortions (selectedUnit ui))"
      "perform gen ?c st"]
  show ?thesis
    unfolding registerCategory_def register_calls [OF assms]
    by (simp add: performAll_append seedItems_frame seedPortionCalls_def)
qed

lemma register_inventoryItems:
  assumes "selectedCategory ui \<noteq> []"
    and "find (\<lambda>c. c_id c = selectedCategory ui) (categories st) = Some cat"
  shows "\<exists>new. inventoryItems (registerCategory gen ui st) = inventoryItems st @ new \<and>
           map itemFields new =
             map (\<lambda>item. (m_id item, Fin 0, if selectedUnit ui = ml then Some (Fin 750) else None,
                           selectedUnit ui, Some (parseFloat (lowStockThreshold ui))))
               (itemsOfCategory st cat)"
proof -
  let ?c = "AddInventoryCategory (selectedCategory ui) (selectedUnit ui) (parseFloat (lowStockThreshold ui))"
  let ?icid = "case find (\<lambda>ic. ic_categoryId ic = selectedCategory ui) (inventoryCategories st) of
                None \<Rightarrow> gen st | Some ic \<Rightarrow> ic_id ic"
  let ?st2 = "performAll gen (seedPortionCalls ?icid (defaultPortions (selectedUnit ui))) (perform gen ?c st)"
  have "inventoryItems ?st2 = inventoryItems st"
    by (simp add: seedPortionCalls_def seedPortions_frame)
  with seedItems_tables [of gen "selectedUnit ui" "lowStockThreshold ui" "itemsOfCategory st cat" ?st2]
  show ?thesis
    unfolding registerCategory_def register_calls [OF assms]
    by (simp add: performAll_append)
qed

lemma register_frame:
  assumes "selectedCategory ui \<noteq> []"
    and "find (\<lambda>c. c_id c = selectedCategory ui) (categories st) = Some cat"
  shows "categories (registerCategory gen ui st) = categories st \<and>
         menuItems (registerCategory gen ui st) = menuItems st"
  unfolding registerCategory_def register_calls [OF assms]
  by (simp add: performAll_append seedItems_frame seedPortionCalls_def seedPortions_frame)


lemma performAll_deletes:
  assumes "\<forall>c\<in>set cs. \<exists>i. c = DeletePortionOption i \<or> c = DeleteInventoryItem i \<or>
             c = DeleteInventoryCategory i"
  shows "portionOptions (performAll gen cs st) =
           filter (\<lambda>p. DeletePortionOption (p_id p) \<notin> set cs) (portionOptions st) \<and>
         inventoryItems (performAll gen cs st) =
           filter (\<lambda>ii. DeleteInventoryItem (ii_id ii) \<notin> set cs) (inventoryItems st) \<and>
         inventoryCategories (performAll gen cs st) =
           filter (\<lambda>ic. DeleteInventoryCategory (ic_id ic) \<notin> set cs) (inventoryCategories st)"
  using assms
proof (induction cs arbitrary: st)
  case Nil
  then show ?case by simp
next
  case (Cons c cs)
  then obtain i where "c = DeletePortionOption i \<or> c = DeleteInventoryItem i \<or>
      c = DeleteInventoryCategory i" by auto
  moreover have "\<forall>c\<in>set cs. \<exists>i. c = DeletePortionOption i \<or> c = DeleteInventoryItem i \<or>
             c = DeleteInventoryCategory i" using Cons.prems by simp
  note Cons.IH [OF this, of "perform gen c st"]
  ultimately show ?case
    by (elim disjE) (auto intro!: filter_cong)
qed

lemma remove_calls_deletes:
  "\<forall>c\<in>set (snd (handleRemoveCategory confirmed catId st)).
     \<exists>i. c = DeletePortionOption i \<or> c = DeleteInventoryItem i \<or> c = DeleteInventoryCategory i"
  by (auto simp: handleRemoveCategory_def split: option.splits)

lemma remove_tables:
  "portionOptions (removeCategory gen confirmed catId st) =
     filter (\<lambda>p. DeletePortionOption (p_id p) \<notin> set (snd (handleRemoveCategory confirmed catId st)))
       (portionOptions st) \<and>
   inventoryItems (removeCategory gen confirmed catId st) =
     filter (\<lambda>ii. DeleteInventoryItem (ii_id ii) \<notin> set (snd (handleRemoveCategory confirmed catId st)))
       (inventoryItems st) \<and>
   inventoryCategories (removeCategory gen confirmed catId st) =
     filter (\<lambda>ic. DeleteInventoryCategory (ic_id ic) \<notin> set (snd (handleRemoveCategory confirmed catId st)))
       (inventoryCategories st)"
  unfolding removeCategory_def by (rule performAll_deletes [OF remove_calls_deletes])

lemma remove_calls:
  assumes "find (\<lambda>ic. ic_categoryId ic = catId) (inventoryCategories st) = Some invCat"
    and "find (\<lambda>c. c_id c = catId) (categories st) = Some cat"
  shows "snd (handleRemoveCategory True catId st) =
     map (\<lambda>p. DeletePortionOption (p_id p))
       (filter (\<lambda>p. p_inventoryCategoryId p = ic_id invCat) (portionOptions st)) @
     concat (map (\<lambda>item.
         case find (\<lambda>ii. ii_menuItemId ii = m_id item) (inventoryItems st) of
           None \<Rightarrow> []
         | Some invItem \<Rightarrow> [DeleteInventoryItem (ii_id invItem)])
       (itemsOfCategory st cat)) @
     [DeleteInventoryCategory (ic_id invCat)]"
  using assms by (simp add: handleRemoveCategory_def itemsOfCategory_def)

lemma find_unique:
  assumes "x \<in> set xs" "P x" "\<forall>y\<in>set xs. P y \<longrightarrow> y = x"
  shows "find P xs = Some x"
proof -
  from assms(1,2) have "find P xs \<noteq> None" by (auto simp: find_None_iff)
  then obtain y where y: "find P xs = Some y" by auto
  then have "y \<in> set xs" "P y" by (auto simp: find_Some_iff)
  with assms(3) y show ?thesis by auto
qed


lemma seeded_items_found:
  assumes ids: "map ii_menuItemId new = map m_id items"
    and dist: "distinct (map m_id items)"
    and old: "\<forall>ii\<in>set old. ii_menuItemId ii \<notin> m_id ` set items"
  shows "map (\<lambda>item. find (\<lambda>ii. ii_menuItemId ii = m_id item) (old @ new)) items = map Some new"
proof (rule nth_equalityI)
  have len: "length new = length items" using ids by (metis length_map)
  show "length (map (\<lambda>item. find (\<lambda>ii. ii_menuItemId ii = m_id item) (old @ new)) items)
      = length (map Some new)" using len by simp
  fix k assume "k < length (map (\<lambda>item. find (\<lambda>ii. ii_menuItemId ii = m_id item) (old @ new)) items)"
  then have k: "k < length items" by simp
  have idk: "\<And>j. j < length items \<Longrightarrow> ii_menuItemId (new ! j) = m_id (items ! j)"
    using ids len by (metis nth_map)
  have "find (\<lambda>ii. ii_menuItemId ii = m_id (items ! k)) (old @ new) = Some (new ! k)"
  proof (rule find_unique)
    show "new ! k \<in> set (old @ new)" using k len by simp
    show "ii_menuItemId (new ! k) = m_id (items ! k)" using idk k by simp
    show "\<forall>y\<in>set (old @ new). ii_menuItemId y = m_id (items ! k) \<longrightarrow> y = new ! k"
    proof (intro ballI impI)
      fix y assume y: "y \<in> set (old @ new)" and e: "ii_menuItemId y = m_id (items ! k)"
      have "y \<notin> set old" using old e k by (metis image_eqI nth_mem)
      with y have "y \<in> set new" by simp
      then obtain j where j: "j < length new" "y = new ! j" by (metis in_set_conv_nth)
      then have "m_id (items ! j) = m_id (items ! k)" using idk len e by simp
      then have "map m_id items ! j = map m_id items ! k" using j len k by simp
      moreover have "j < length (map m_id items)" "k < length (map m_id items)"
        using j len k by simp_all
      ultimately have "j = k" using dist nth_eq_iff_index_eq by blast
      with j show "y = new ! k" by simp
    qed
  qed
  then show "map (\<lambda>item. find (\<lambda>ii. ii_menuItemId ii = m_id item) (old @ new)) items ! k
      = map Some new ! k" using k len by simp
qed

lemma concat_map_option:
  assumes "map f xs = map Some ys"
  shows "concat (map (\<lambda>x. case f x of None \<Rightarrow> [] | Some y \<Rightarrow> [g y]) xs) = map g ys"
  using assms
proof (induction xs arbitrary: ys)
  case Nil
  then show ?case by simp
next
  case (Cons x xs)
  then obtain y ys' where "ys = y # ys'" "f x = Some y" "map f xs = map Some ys'" by (cases ys) auto
  with Cons.IH show ?case by simp
qed

text \<open>
  Where the round trip works. For a category that exists, is not tracked yet, and whose
  menu items have distinct identifiers and no inventory row: registering it appends one
  inventory category, the default portions of the unit type linked to it, and one
  inventory row with zero stock per menu item of the category; removing it issues the
  deletions of its portions, then of those inventory rows, then of the inventory
  category, in this order; afterwards the category has no inventory category, no portion
  and no inventory row.
\<close>

lemma register_then_remove_roundtrip:
  assumes sel: "selectedCategory ui = cid" and ne: "cid \<noteq> []"
    and cat: "find (\<lambda>c. c_id c = cid) (categories st) = Some cat"
    and untracked: "\<forall>ic\<in>set (inventoryCategories st). ic_categoryId ic \<noteq> cid"
    and noitems: "\<forall>ii\<in>set (inventoryItems st). ii_menuItemId ii \<notin> m_id ` set (itemsOfCategory st cat)"
    and dist: "distinct (map m_id (itemsOfCategory st cat))"
  shows "\<exists>newPs newIs.
     inventoryCategories (registerCategory gen ui st) =
       inventoryCategories st @
         [\<lparr>ic_id = gen st, ic_categoryId = cid, ic_unitType = selectedUnit ui,
           ic_lowStockThreshold = parseFloat (lowStockThreshold ui)\<rparr>] \<and>
     portionOptions (registerCategory gen ui st) = portionOptions st @ newPs \<and>
     map portionFields newPs =
       map (\<lambda>(i, p). (gen st, t_name p, t_size p, t_multiplier p, i, None))
         (enumerate 0 (defaultPortions (selectedUnit ui))) \<and>
     inventoryItems (registerCategory gen ui st) = inventoryItems st @ newIs \<and>
     map (\<lambda>ii. (ii_menuItemId ii, ii_currentStock ii)) newIs =
       map (\<lambda>m. (m_id m, Fin 0)) (itemsOfCategory st cat) \<and>
     snd (handleRemoveCategory True cid (registerCategory gen ui st)) =
       map (\<lambda>p. DeletePortionOption (p_id p))
         (filter (\<lambda>p. p_inventoryCategoryId p = gen st) (portionOptions (registerCategory gen ui st))) @
       map (\<lambda>ii. DeleteInventoryItem (ii_id ii)) newIs @
       [DeleteInventoryCategory (gen st)] \<and>
     filter (\<lambda>ic. ic_categoryId ic = cid)
       (inventoryCategories (removeCategory gen True cid (registerCategory gen ui st))) = [] \<and>
     filter (\<lambda>p. p_inventoryCategoryId p = gen st)
       (portionOptions (removeCategory gen True cid (registerCategory gen ui st))) = [] \<and>
     filter (\<lambda>ii. ii_menuItemId ii \<in> m_id ` set (itemsOfCategory st cat))
       (inventoryItems (removeCategory gen True cid (registerCategory gen ui st))) = []"
proof -
  let ?st1 = "registerCategory gen ui st"
  let ?st2 = "removeCategory gen True cid ?st1"
  let ?items = "itemsOfCategory st cat"
  let ?newCat = "\<lparr>ic_id = gen st, ic_categoryId = cid, ic_unitType = selectedUnit ui,
           ic_lowStockThreshold = parseFloat (lowStockThreshold ui)\<rparr>"
  have ne': "selectedCategory ui \<noteq> []" using sel ne by simp
  have cat': "find (\<lambda>c. c_id c = selectedCategory ui) (categories st) = Some cat"
    using cat sel by simp
  have none: "find (\<lambda>ic. ic_categoryId ic = cid) (inventoryCategories st) = None"
    using untracked by (auto simp: find_None_iff)
  have cats: "inventoryCategories ?st1 = inventoryCategories st @ [?newCat]"
    using register_inventoryCategories [OF ne' cat', of gen] sel by simp
  obtain newPs where ps: "portionOptions ?st1 = portionOptions st @ newPs"
    and psf: "map portionFields newPs =
       map (\<lambda>(i, p). (gen st, t_name p, t_size p, t_multiplier p, i, None))
         (enumerate 0 (defaultPortions (selectedUnit ui)))"
    using register_portionOptions [OF ne' cat', of gen] none sel by auto
  obtain newIs where nis: "inventoryItems ?st1 = inventoryItems st @ newIs"
    and isf: "map itemFields newIs =
             map (\<lambda>item. (m_id item, Fin 0, if selectedUnit ui = ml then Some (Fin 750) else None,
                           selectedUnit ui, Some (parseFloat (lowStockThreshold ui)))) ?items"
    using register_inventoryItems [OF ne' cat', of gen] by auto
  have "map (\<lambda>ii. (ii_menuItemId ii, ii_currentStock ii)) newIs
      = map ((\<lambda>(a, b, c). (a, b)) \<circ> itemFields) newIs"
    by (simp add: itemFields_def)
  also have "\<dots> = map (\<lambda>(a, b, c). (a, b)) (map itemFields newIs)" by simp
  also have "\<dots> = map (\<lambda>m. (m_id m, Fin 0)) ?items" unfolding isf by simp
  finally have stock: "map (\<lambda>ii. (ii_menuItemId ii, ii_currentStock ii)) newIs
      = map (\<lambda>m. (m_id m, Fin 0)) ?items" .
  have "map ii_menuItemId newIs = map (fst \<circ> (\<lambda>ii. (ii_menuItemId ii, ii_currentStock ii))) newIs"
    by simp
  also have "\<dots> = map fst (map (\<lambda>ii. (ii_menuItemId ii, ii_currentStock ii)) newIs)" by simp
  also have "\<dots> = map m_id ?items" unfolding stock by simp
  finally have ids: "map ii_menuItemId newIs = map m_id ?items" .
  have fr: "categories ?st1 = categories st" "menuItems ?st1 = menuItems st"
    using register_frame [OF ne' cat', of gen] by simp_all
  have items1: "itemsOfCategory ?st1 cat = ?items" by (simp add: itemsOfCategory_def fr)
  have found: "find (\<lambda>ic. ic_categoryId ic = cid) (inventoryCategories ?st1) = Some ?newCat"
    by (simp add: cats find_snoc none)
  have cat1: "find (\<lambda>c. c_id c = cid) (categories ?st1) = Some cat" using cat fr by simp
  have "concat (map (\<lambda>item.
         case find (\<lambda>ii. ii_menuItemId ii = m_id item) (inventoryItems st @ newIs) of
           None \<Rightarrow> []
         | Some invItem \<Rightarrow> [DeleteInventoryItem (ii_id invItem)]) ?items)
       = map (\<lambda>ii. DeleteInventoryItem (ii_id ii)) newIs"
    by (rule concat_map_option [OF seeded_items_found [OF ids dist noitems]])
  then have calls: "snd (handleRemoveCategory True cid ?st1) =
       map (\<lambda>p. DeletePortionOption (p_id p))
         (filter (\<lambda>p. p_inventoryCategoryId p = gen st) (portionOptions ?st1)) @
       map (\<lambda>ii. DeleteInventoryItem (ii_id ii)) newIs @
       [DeleteInventoryCategory (gen st)]"
    unfolding remove_calls [OF found cat1] items1 nis by simp
  note rt = remove_tables [of gen True cid ?st1]
  have z1: "filter (\<lambda>ic. ic_categoryId ic = cid) (inventoryCategories ?st2) = []"
  proof -
    have "inventoryCategories ?st2 = filter (\<lambda>ic. ic_id ic \<noteq> gen st) (inventoryCategories ?st1)"
      using rt unfolding calls by (auto intro!: filter_cong)
    then show ?thesis using untracked by (auto simp: cats filter_empty_conv)
  qed
  have z2: "filter (\<lambda>p. p_inventoryCategoryId p = gen st) (portionOptions ?st2) = []"
  proof -
    have "portionOptions ?st2 =
        filter (\<lambda>p. DeletePortionOption (p_id p) \<notin> set (snd (handleRemoveCategory True cid ?st1)))
          (portionOptions ?st1)" using rt by simp
    then show ?thesis unfolding calls by (auto simp: filter_empty_conv)
  qed
  have z3: "filter (\<lambda>ii. ii_menuItemId ii \<in> m_id ` set ?items) (inventoryItems ?st2) = []"
  proof -
    have "inventoryItems ?st2 =
        filter (\<lambda>ii. DeleteInventoryItem (ii_id ii) \<notin> set (snd (handleRemoveCategory True cid ?st1)))
          (inventoryItems st @ newIs)" using rt nis by simp
    then have "set (inventoryItems ?st2) \<subseteq> set (inventoryItems st)"
      unfolding calls by auto
    then show ?thesis using noitems by (auto simp: filter_empty_conv)
  qed
  show ?thesis
    using cats ps psf nis stock calls z1 z2 z3 by blast
qed

lemma register_then_remove_roundtrip_example:
  "selectedCategory snacksForm = ''c2'' \<and>
   find (\<lambda>c. c_id c = ''c2'') (categories snacksStore) = Some \<lparr>c_id = ''c2'', c_name = ''Snacks''\<rparr> \<and>
   map ic_categoryId (inventoryCategories snacksStore) = [''c1''] \<and>
   map ii_menuItemId (inventoryItems snacksStore) = [''whisky-id''] \<and>
   map ic_categoryId (inventoryCategories (registerCategory exampleGen snacksForm snacksStore))
     = [''c1'', ''c2''] \<and>
   length (portionOptions (registerCategory exampleGen snacksForm snacksStore)) = 7 + 2 \<and>
   length (inventoryItems (registerCategory exampleGen snacksForm snacksStore)) = 1 + 2 \<and>
   filter (\<lambda>ic. ic_categoryId ic = ''c2'')
     (inventoryCategories (removeCategory exampleGen True ''c2''
        (registerCategory exampleGen snacksForm snacksStore))) = [] \<and>
   filter (\<lambda>p. p_inventoryCategoryId p = exampleGen snacksStore)
     (portionOptions (removeCategory exampleGen True ''c2''
        (registerCategory exampleGen snacksForm snacksStore))) = [] \<and>
   filter (\<lambda>ii. ii_menuItemId ii \<in> {''momo-id'', ''chips-id''})
     (inventoryItems (removeCategory exampleGen True ''c2''
        (registerCategory exampleGen snacksForm snacksStore))) = []"
proof -
  let ?cat = "\<lparr>c_id = ''c2'', c_name = ''Snacks''\<rparr>"
  have sel: "selectedCategory snacksForm = ''c2''" by (simp add: snacksForm_def)
  have ne: "''c2'' \<noteq> []" by simp
  have cat: "find (\<lambda>c. c_id c = ''c2'') (categories snacksStore) = Some ?cat"
    by (simp add: snacksStore_tables)
  have untracked: "\<forall>ic\<in>set (inventoryCategories snacksStore). ic_categoryId ic \<noteq> ''c2''"
    by (simp add: snacksStore_tables drinksTracked_categories)
  have noitems: "\<forall>ii\<in>set (inventoryItems snacksStore).
      ii_menuItemId ii \<notin> m_id ` set (itemsOfCategory snacksStore ?cat)"
    by (simp add: snacksStore_tables drinksTracked_items)
  have dist: "distinct (map m_id (itemsOfCategory snacksStore ?cat))"
    by (simp add: snacksStore_tables)
  have u: "defaultPortions (selectedUnit snacksForm) = defaultPortions pcs"
    "length (defaultPortions pcs) = 2"
    by (simp_all add: snacksForm_def drinksForm_def defaultPortions_def DEFAULT_PORTIONS_def)
  have ids: "m_id ` set (itemsOfCategory snacksStore ?cat) = {''momo-id'', ''chips-id''}"
    by (simp add: snacksStore_tables)
  from register_then_remove_roundtrip [OF sel ne cat untracked noitems dist, of exampleGen]
  obtain newPs newIs where
    a: "inventoryCategories (registerCategory exampleGen snacksForm snacksStore) =
       inventoryCategories snacksStore @
         [\<lparr>ic_id = exampleGen snacksStore, ic_categoryId = ''c2'', ic_unitType = selectedUnit snacksForm,
           ic_lowStockThreshold = parseFloat (lowStockThreshold snacksForm)\<rparr>]"
    and b: "portionOptions (registerCategory exampleGen snacksForm snacksStore) = portionOptions snacksStore @ newPs"
    and c: "map portionFields newPs =
       map (\<lambda>(i, p). (exampleGen snacksStore, t_name p, t_size p, t_multiplier p, i, None))
         (enumerate 0 (defaultPortions (selectedUnit snacksForm)))"
    and d: "inventoryItems (registerCategory exampleGen snacksForm snacksStore) = inventoryItems snacksStore @ newIs"
    and e: "map (\<lambda>ii. (ii_menuItemId ii, ii_currentStock ii)) newIs =
       map (\<lambda>m. (m_id m, Fin 0)) (itemsOfCategory snacksStore ?cat)"
    and z1: "filter (\<lambda>ic. ic_categoryId ic = ''c2'')
       (inventoryCategories (removeCategory exampleGen True ''c2''
          (registerCategory exampleGen snacksForm snacksStore))) = []"
    and z2: "filter (\<lambda>p. p_inventoryCategoryId p = exampleGen snacksStore)
       (portionOptions (removeCategory exampleGen True ''c2''
          (registerCategory exampleGen snacksForm snacksStore))) = []"
    and z3: "filter (\<lambda>ii. ii_menuItemId ii \<in> m_id ` set (itemsOfCategory snacksStore ?cat))
       (inventoryItems (removeCategory exampleGen True ''c2''
          (registerCategory exampleGen snacksForm snacksStore))) = []"
    by blast
  have "length (map portionFields newPs) = 2" unfolding c using u by simp
  then have lp: "length newPs = 2" by simp
  have "length (map (\<lambda>ii. (ii_menuItemId ii, ii_currentStock ii)) newIs) = 2"
    unfolding e by (simp add: snacksStore_tables)
  then have li: "length newIs = 2" by simp
  have A: "map ic_categoryId (inventoryCategories (registerCategory exampleGen snacksForm snacksStore))
     = [''c1'', ''c2'']" unfolding a by (simp add: snacksStore_tables drinksTracked_categories)
  have B: "length (portionOptions (registerCategory exampleGen snacksForm snacksStore)) = 7 + 2"
    unfolding b using lp by (simp add: snacksStore_tables drinksTracked_portions)
  have C: "length (inventoryItems (registerCategory exampleGen snacksForm snacksStore)) = 1 + 2"
    unfolding d using li by (simp add: snacksStore_tables drinksTracked_items)
  show ?thesis
    using sel cat A B C z1 z2 z3 unfolding ids
    by (simp add: snacksStore_tables drinksTracked_categories drinksTracked_items)
qed


section \<open>Seeding\<close>

lemma register_portion_rows:
  assumes "selectedCategory ui \<noteq> []"
    and "find (\<lambda>c. c_id c = selectedCategory ui) (categories st) = Some cat"
  shows "\<exists>new. portionOptions (registerCategory gen ui st) = portionOptions st @ new \<and>
           map (\<lambda>p. (p_name p, p_size p, p_priceMultiplier p, p_sortOrder p)) new =
             map (\<lambda>(i, t). (t_name t, t_size t, t_multiplier t, i))
               (enumerate 0 (defaultPortions (selectedUnit ui))) \<and>
           map p_sortOrder new = [0..<length (defaultPortions (selectedUnit ui))]"
proof -
  let ?ts = "defaultPortions (selectedUnit ui)"
  from register_portionOptions [OF assms, of gen] obtain new icid where
    n: "portionOptions (registerCategory gen ui st) = portionOptions st @ new"
    and f: "map portionFields new =
             map (\<lambda>(i, p). (icid, t_name p, t_size p, t_multiplier p, i, None)) (enumerate 0 ?ts)"
    by blast
  have "map (\<lambda>p. (p_name p, p_size p, p_priceMultiplier p, p_sortOrder p)) new
      = map (\<lambda>(a, b, c, d, e, f). (b, c, d, e)) (map portionFields new)"
    by (simp add: portionFields_def)
  also have "\<dots> = map (\<lambda>(i, t). (t_name t, t_size t, t_multiplier t, i)) (enumerate 0 ?ts)"
    unfolding f by (simp add: case_prod_unfold)
  finally have g: "map (\<lambda>p. (p_name p, p_size p, p_priceMultiplier p, p_sortOrder p)) new =
             map (\<lambda>(i, t). (t_name t, t_size t, t_multiplier t, i)) (enumerate 0 ?ts)" .
  have "map p_sortOrder new
      = map (\<lambda>(b, c, d, e). e) (map (\<lambda>p. (p_name p, p_size p, p_priceMultiplier p, p_sortOrder p)) new)"
    by simp
  also have "\<dots> = map fst (enumerate 0 ?ts)" unfolding g by (simp add: case_prod_unfold comp_def)
  also have "\<dots> = [0..<length ?ts]" by simp
  finally have "map p_sortOrder new = [0..<length ?ts]" .
  with n g show ?thesis by blast
qed

lemma defaultPortions_ml:
  "defaultPortions ml =
          [\<lparr>t_name = ''30ml (Peg)'', t_size = Fin 30, t_multiplier = Fin (1 / 2)\<rparr>,
           \<lparr>t_name = ''60ml (Large)'', t_size = Fin 60, t_multiplier = Fin 1\<rparr>,
           \<lparr>t_name = ''90ml'', t_size = Fin 90, t_multiplier = Fin (3 / 2)\<rparr>,
           \<lparr>t_name = ''180ml (QTR)'', t_size = Fin 180, t_multiplier = Fin (28 / 10)\<rparr>,
           \<lparr>t_name = ''375ml (Half)'', t_size = Fin 375, t_multiplier = Fin (55 / 10)\<rparr>,
           \<lparr>t_name = ''750ml (Full)'', t_size = Fin 750, t_multiplier = Fin 10\<rparr>,
           \<lparr>t_name = ''1000ml'', t_size = Fin 1000, t_multiplier = Fin (133 / 10)\<rparr>]"
  by (simp add: defaultPortions_def DEFAULT_PORTIONS_def)

lemma defaultPortions_pcs:
  "defaultPortions pcs =
          [\<lparr>t_name = ''1 Piece'', t_size = Fin 1, t_multiplier = Fin 1\<rparr>,
           \<lparr>t_name = ''Pack (20)'', t_size = Fin 20, t_multiplier = Fin 18\<rparr>]"
  by (simp add: defaultPortions_def DEFAULT_PORTIONS_def)

text \<open>
  Claim C9, as the code has it. The millilitre template has seven entries, from 30 ml
  (multiplier 0.5) to 1000 ml, in increasing size; the multiplier per millilitre never
  increases with the size: it is 1/60 for 30 ml, 60 ml and 90 ml alike and strictly
  decreases from 90 ml on. The pieces template has two entries, one piece and a pack of
  20. Grams, bottles and packs have no template of their own and get the pieces template.
  The portions seeded at registration are the template's entries in order, each with its
  position (from 0) as sort order.
\<close>

theorem default_portion_templates:
  "length (defaultPortions ml) = 7 \<and>
   t_size (hd (defaultPortions ml)) = Fin 30 \<and> t_multiplier (hd (defaultPortions ml)) = Fin (1 / 2) \<and>
   t_size (last (defaultPortions ml)) = Fin 1000 \<and>
   sorted_wrt (\<lambda>a b. js_gt (t_size b) (t_size a)) (defaultPortions ml) \<and>
   sorted_wrt (\<lambda>a b. js_le (multiplierPerUnit b) (multiplierPerUnit a)) (defaultPortions ml) \<and>
   map multiplierPerUnit (take 3 (defaultPortions ml)) = [Fin (1 / 60), Fin (1 / 60), Fin (1 / 60)] \<and>
   sorted_wrt (\<lambda>a b. js_gt (multiplierPerUnit a) (multiplierPerUnit b)) (drop 2 (defaultPortions ml)) \<and>
   map (\<lambda>t. (t_name t, t_size t)) (defaultPortions pcs) = [(''1 Piece'', Fin 1), (''Pack (20)'', Fin 20)] \<and>
   defaultPortions grams = defaultPortions pcs \<and>
   defaultPortions bottle = defaultPortions pcs \<and>
   defaultPortions pack = defaultPortions pcs \<and>
   (selectedCategory ui \<noteq> [] \<and> find (\<lambda>c. c_id c = selectedCategory ui) (categories st) = Some cat \<longrightarrow>
     (\<exists>new. portionOptions (registerCategory gen ui st) = portionOptions st @ new \<and>
           map (\<lambda>p. (p_name p, p_size p, p_priceMultiplier p, p_sortOrder p)) new =
             map (\<lambda>(i, t). (t_name t, t_size t, t_multiplier t, i))
               (enumerate 0 (defaultPortions (selectedUnit ui))) \<and>
           map p_sortOrder new = [0..<length (defaultPortions (selectedUnit ui))]))"
proof -
  have a: "length (defaultPortions ml) = 7" by (simp add: defaultPortions_ml)
  have b: "t_size (hd (defaultPortions ml)) = Fin 30" "t_multiplier (hd (defaultPortions ml)) = Fin (1 / 2)"
    "t_size (last (defaultPortions ml)) = Fin 1000" by (simp_all add: defaultPortions_ml)
  have c: "sorted_wrt (\<lambda>a b. js_gt (t_size b) (t_size a)) (defaultPortions ml)"
    by (simp add: defaultPortions_ml)
  have d: "sorted_wrt (\<lambda>a b. js_le (multiplierPerUnit b) (multiplierPerUnit a)) (defaultPortions ml)"
    by (simp add: defaultPortions_ml multiplierPerUnit_def)
  have e: "map multiplierPerUnit (take 3 (defaultPortions ml)) = [Fin (1 / 60), Fin (1 / 60), Fin (1 / 60)]"
    by (simp add: defaultPortions_ml multiplierPerUnit_def)
  have f: "sorted_wrt (\<lambda>a b. js_gt (multiplierPerUnit a) (multiplierPerUnit b)) (drop 2 (defaultPortions ml))"
    by (simp add: defaultPortions_ml multiplierPerUnit_def)
  have g: "map (\<lambda>t. (t_name t, t_size t)) (defaultPortions pcs) = [(''1 Piece'', Fin 1), (''Pack (20)'', Fin 20)]"
    by (simp add: defaultPortions_pcs)
  have h: "defaultPortions grams = defaultPortions pcs" "defaultPortions bottle = defaultPortions pcs"
    "defaultPortions pack = defaultPortions pcs"
    by (simp_all add: defaultPortions_def DEFAULT_PORTIONS_def)
  show ?thesis using a b c d e f g h register_portion_rows [of ui st cat gen] by blast
qed

theorem per_unit_multiplier_counterexample:
  "\<not> js_gt (multiplierPerUnit (defaultPortions ml ! 0)) (multiplierPerUnit (defaultPortions ml ! 1))"
  by (simp add: defaultPortions_ml multiplierPerUnit_def)

theorem default_portion_templates_witness:
  "selectedCategory snacksForm \<noteq> [] \<and> selectedUnit snacksForm = grams \<and>
   find (\<lambda>c. c_id c = selectedCategory snacksForm) (categories snacksStore)
     = Some \<lparr>c_id = ''c2'', c_name = ''Snacks''\<rparr> \<and>
   map (\<lambda>p. (p_name p, p_size p, p_priceMultiplier p, p_sortOrder p))
     (drop 7 (portionOptions (registerCategory exampleGen snacksForm snacksStore))) =
     [(''1 Piece'', Fin 1, Fin 1, 0), (''Pack (20)'', Fin 20, Fin 18, 1)]"
proof -
  let ?cat = "\<lparr>c_id = ''c2'', c_name = ''Snacks''\<rparr>"
  have s: "selectedCategory snacksForm \<noteq> []" "selectedUnit snacksForm = grams"
    by (simp_all add: snacksForm_def drinksForm_def)
  have c: "find (\<lambda>c. c_id c = selectedCategory snacksForm) (categories snacksStore) = Some ?cat"
    by (simp add: snacksStore_tables snacksForm_def drinksForm_def)
  have l: "length (portionOptions snacksStore) = 7"
    by (simp add: snacksStore_tables drinksTracked_portions)
  from default_portion_templates [of snacksForm snacksStore ?cat exampleGen] s c
  obtain new where
    n: "portionOptions (registerCategory exampleGen snacksForm snacksStore) = portionOptions snacksStore @ new"
    and f: "map (\<lambda>p. (p_name p, p_size p, p_priceMultiplier p, p_sortOrder p)) new =
             map (\<lambda>(i, t). (t_name t, t_size t, t_multiplier t, i))
               (enumerate 0 (defaultPortions (selectedUnit snacksForm)))"
    and g: "defaultPortions grams = defaultPortions pcs"
    by blast
  have "drop 7 (portionOptions (registerCategory exampleGen snacksForm snacksStore)) = new"
    unfolding n using l by simp
  then show ?thesis using s c f g by (simp add: defaultPortions_pcs)
qed

lemma map_const_mem:
  assumes "map g xs = map (\<lambda>y. c) ys" and "x \<in> set xs"
  shows "g x = c"
proof -
  have "g x \<in> set (map g xs)" using assms(2) by simp
  then show ?thesis unfolding assms(1) by auto
qed

text \<open>
  Claim C10. Every inventory row seeded at registration has stock 0 and, as its own
  threshold, the threshold given at registration (the one the new inventory category
  holds); its default bottle size is 750 when the unit type is \<open>ml\<close> and unset for every
  other unit type.
\<close>

theorem seeded_item_defaults:
  assumes "selectedCategory ui \<noteq> []"
    and "find (\<lambda>c. c_id c = selectedCategory ui) (categories st) = Some cat"
  shows "\<exists>new. inventoryItems (registerCategory gen ui st) = inventoryItems st @ new \<and>
           map ii_menuItemId new = map m_id (itemsOfCategory st cat) \<and>
           (\<forall>ii\<in>set new.
              (selectedUnit ui = ml \<longrightarrow> ii_defaultBottleSize ii = Some (Fin 750)) \<and>
              (selectedUnit ui \<noteq> ml \<longrightarrow> ii_defaultBottleSize ii = None) \<and>
              ii_currentStock ii = Fin 0 \<and>
              ii_lowStockThreshold ii = Some (parseFloat (lowStockThreshold ui)) \<and>
              ii_lowStockThreshold ii =
                Some (ic_lowStockThreshold (last (inventoryCategories (registerCategory gen ui st)))))"
proof -
  from register_inventoryItems [OF assms, of gen] obtain new where
    n: "inventoryItems (registerCategory gen ui st) = inventoryItems st @ new"
    and f: "map itemFields new =
             map (\<lambda>item. (m_id item, Fin 0, if selectedUnit ui = ml then Some (Fin 750) else None,
                           selectedUnit ui, Some (parseFloat (lowStockThreshold ui))))
               (itemsOfCategory st cat)"
    by blast
  have t: "ic_lowStockThreshold (last (inventoryCategories (registerCategory gen ui st)))
      = parseFloat (lowStockThreshold ui)"
    by (simp add: register_inventoryCategories [OF assms])
  have "map ii_menuItemId new = map fst (map itemFields new)" by (simp add: itemFields_def)
  also have "\<dots> = map m_id (itemsOfCategory st cat)" unfolding f by (simp add: comp_def)
  finally have ids: "map ii_menuItemId new = map m_id (itemsOfCategory st cat)" .
  have "map (\<lambda>ii. snd (itemFields ii)) new = map snd (map itemFields new)" by simp
  also have "\<dots> = map (\<lambda>item. (Fin 0, if selectedUnit ui = ml then Some (Fin 750) else None,
                           selectedUnit ui, Some (parseFloat (lowStockThreshold ui))))
               (itemsOfCategory st cat)"
    unfolding f by (simp add: comp_def)
  finally have rest: "map (\<lambda>ii. snd (itemFields ii)) new =
      map (\<lambda>item. (Fin 0, if selectedUnit ui = ml then Some (Fin 750) else None,
                    selectedUnit ui, Some (parseFloat (lowStockThreshold ui))))
        (itemsOfCategory st cat)" .
  have each: "(selectedUnit ui = ml \<longrightarrow> ii_defaultBottleSize ii = Some (Fin 750)) \<and>
              (selectedUnit ui \<noteq> ml \<longrightarrow> ii_defaultBottleSize ii = None) \<and>
              ii_currentStock ii = Fin 0 \<and>
              ii_lowStockThreshold ii = Some (parseFloat (lowStockThreshold ui))"
    if "ii \<in> set new" for ii
  proof -
    have "snd (itemFields ii) = (Fin 0, if selectedUnit ui = ml then Some (Fin 750) else None,
                    selectedUnit ui, Some (parseFloat (lowStockThreshold ui)))"
      by (rule map_const_mem [OF rest that])
    then show ?thesis by (simp add: itemFields_def)
  qed
  show ?thesis using n ids each t by auto
qed

theorem seeded_item_defaults_witness:
  "selectedUnit drinksForm = ml \<and> selectedUnit snacksForm \<noteq> ml \<and>
   map ii_defaultBottleSize (inventoryItems (registerCategory exampleGen drinksForm drinksStore))
     = [Some (Fin 750)] \<and>
   map ii_defaultBottleSize (drop 1 (inventoryItems (registerCategory exampleGen snacksForm snacksStore)))
     = [None, None] \<and>
   map ii_currentStock (drop 1 (inventoryItems (registerCategory exampleGen snacksForm snacksStore)))
     = [Fin 0, Fin 0] \<and>
   map ii_lowStockThreshold (drop 1 (inventoryItems (registerCategory exampleGen snacksForm snacksStore)))
     = [Some (Fin 10), Some (Fin 10)]"
proof -
  let ?cat = "\<lparr>c_id = ''c2'', c_name = ''Snacks''\<rparr>"
  let ?dcat = "\<lparr>c_id = ''c1'', c_name = ''Drinks''\<rparr>"
  have s: "selectedCategory snacksForm \<noteq> []" "selectedUnit snacksForm \<noteq> ml"
    "selectedCategory drinksForm \<noteq> []" "selectedUnit drinksForm = ml"
    by (simp_all add: snacksForm_def drinksForm_def)
  have c: "find (\<lambda>c. c_id c = selectedCategory snacksForm) (categories snacksStore) = Some ?cat"
    by (simp add: snacksStore_tables snacksForm_def drinksForm_def)
  have dc: "find (\<lambda>c. c_id c = selectedCategory drinksForm) (categories drinksStore) = Some ?dcat"
    by (simp add: drinksStore_def drinksForm_def)
  have p10: "parseFloat (lowStockThreshold snacksForm) = Fin 10"
    by (simp add: snacksForm_def parseFloat_eval)
  have l: "length (inventoryItems snacksStore) = 1"
    by (simp add: snacksStore_tables drinksTracked_items)
  from seeded_item_defaults [OF s(1) c, of exampleGen] obtain new where
    n: "inventoryItems (registerCategory exampleGen snacksForm snacksStore) = inventoryItems snacksStore @ new"
    and i: "map ii_menuItemId new = map m_id (itemsOfCategory snacksStore ?cat)"
    and e: "\<forall>ii\<in>set new.
              (selectedUnit snacksForm = ml \<longrightarrow> ii_defaultBottleSize ii = Some (Fin 750)) \<and>
              (selectedUnit snacksForm \<noteq> ml \<longrightarrow> ii_defaultBottleSize ii = None) \<and>
              ii_currentStock ii = Fin 0 \<and>
              ii_lowStockThreshold ii = Some (parseFloat (lowStockThreshold snacksForm)) \<and>
              ii_lowStockThreshold ii =
                Some (ic_lowStockThreshold (last (inventoryCategories
                  (registerCategory exampleGen snacksForm snacksStore))))"
    by (elim exE conjE)
  have "length (map ii_menuItemId new) = 2" unfolding i by (simp add: snacksStore_tables)
  then have "length new = 2" by simp
  then have "\<exists>x y. new = [x, y]" by (auto simp: length_Suc_conv numeral_2_eq_2)
  then obtain x y where xy: "new = [x, y]" by (elim exE)
  have dr: "drop 1 (inventoryItems (registerCategory exampleGen snacksForm snacksStore)) = new"
    unfolding n using l by simp
  from seeded_item_defaults [OF s(3) dc, of exampleGen] obtain dnew where
    dn: "inventoryItems (registerCategory exampleGen drinksForm drinksStore) = inventoryItems drinksStore @ dnew"
    and di: "map ii_menuItemId dnew = map m_id (itemsOfCategory drinksStore ?dcat)"
    and de: "\<forall>ii\<in>set dnew.
              (selectedUnit drinksForm = ml \<longrightarrow> ii_defaultBottleSize ii = Some (Fin 750)) \<and>
              (selectedUnit drinksForm \<noteq> ml \<longrightarrow> ii_defaultBottleSize ii = None) \<and>
              ii_currentStock ii = Fin 0 \<and>
              ii_lowStockThreshold ii = Some (parseFloat (lowStockThreshold drinksForm)) \<and>
              ii_lowStockThreshold ii =
                Some (ic_lowStockThreshold (last (inventoryCategories
                  (registerCategory exampleGen drinksForm drinksStore))))"
    by (elim exE conjE)
  have "length (map ii_menuItemId dnew) = 1" unfolding di
    by (simp add: itemsOfCategory_def drinksStore_def whisky_def)
  then have "length dnew = 1" by simp
  then have "\<exists>z. dnew = [z]" by (auto simp: length_Suc_conv)
  then obtain z where z: "dnew = [z]" by (elim exE)
  have d0: "inventoryItems drinksStore = []" by (simp add: drinksStore_def)
  have A: "map ii_defaultBottleSize (inventoryItems (registerCategory exampleGen drinksForm drinksStore))
     = [Some (Fin 750)]" using de s(4) unfolding dn d0 z by simp
  have B: "map ii_defaultBottleSize new = [None, None]" using e s(2) unfolding xy by simp
  have C: "map ii_currentStock new = [Fin 0, Fin 0]" using e unfolding xy by simp
  have D: "map ii_lowStockThreshold new = [Some (Fin 10), Some (Fin 10)]"
    using e unfolding xy p10 by simp
  show ?thesis unfolding dr using s(2,4) A B C D by simp
qed

section \<open>Per-item portion prices\<close>

lemma handleSave_calls_frame:
  "portionOptions (performAll gen (handleSave_calls gen mi prices ps st) st) = portionOptions st \<and>
   menuItems (performAll gen (handleSave_calls gen mi prices ps st) st) = menuItems st \<and>
   inventoryItems (performAll gen (handleSave_calls gen mi prices ps st) st) = inventoryItems st \<and>
   inventoryCategories (performAll gen (handleSave_calls gen mi prices ps st) st) = inventoryCategories st"
  by (induction ps arbitrary: st) (auto simp: Let_def split: option.splits)

lemma strict_ne_False:
  "\<not> strict_ne np cur \<Longrightarrow> cur = Some np"
  by (auto simp: strict_ne_def split: option.splits)

lemma handleSave_calls_keeps:
  assumes "prices k = Some s" "s \<noteq> []"
    and "getItemPortionPrice st (m_id mi) k = Some (parseFloat s)"
  shows "getItemPortionPrice (performAll gen (handleSave_calls gen mi prices ps st) st) (m_id mi) k
      = Some (parseFloat s)"
  using assms(3)
proof (induction ps arbitrary: st)
  case Nil
  then show ?case by simp
next
  case (Cons p ps)
  show ?case
  proof (cases "p_id p = k")
    case True
    then show ?thesis using Cons assms(1,2)
      by (auto simp: Let_def getItemPortionPrice_def split: option.splits)
  next
    case False
    then show ?thesis using Cons
      by (auto simp: Let_def getItemPortionPrice_def split: option.splits)
  qed
qed

lemma handleSave_calls_stores:
  assumes "portion \<in> set ps" "prices (p_id portion) = Some s" "s \<noteq> []"
  shows "getItemPortionPrice (performAll gen (handleSave_calls gen mi prices ps st) st) (m_id mi)
           (p_id portion) = Some (parseFloat s)"
  using assms(1)
proof (induction ps arbitrary: st)
  case Nil
  then show ?case by simp
next
  case (Cons p ps)
  show ?case
  proof (cases "p_id p = p_id portion")
    case True
    let ?c = "SetItemPortionPrice (m_id mi) (p_id p) (parseFloat s)"
    show ?thesis
    proof (cases "strict_ne (parseFloat s) (getItemPortionPrice st (m_id mi) (p_id p))")
      case t: True
      have "getItemPortionPrice (perform gen ?c st) (m_id mi) (p_id portion) = Some (parseFloat s)"
        using True by (simp add: getItemPortionPrice_def)
      from handleSave_calls_keeps [where prices = prices and k = "p_id portion", OF assms(2,3) this, of gen ps]
      show ?thesis using True t assms(2,3) by (simp add: Let_def)
    next
      case f: False
      then have "getItemPortionPrice st (m_id mi) (p_id portion) = Some (parseFloat s)"
        using True strict_ne_False by metis
      from handleSave_calls_keeps [where prices = prices and k = "p_id portion", OF assms(2,3) this, of gen ps]
      show ?thesis using True f assms(2,3) by (simp add: Let_def)
    qed
  next
    case False
    then have "portion \<in> set ps" using Cons.prems by auto
    note ih = Cons.IH [OF this]
    show ?thesis using ih by (auto simp: Let_def split: option.splits)
  qed
qed

text \<open>
  Claim C1, as the code has it. A price entered in the price editor for a portion is
  stored under (menu item, portion) and returned unchanged by \<open>getItemPortionPrice\<close>,
  whatever the portions' multipliers become afterwards. The portion selector's
  \<open>getPortionPrice\<close> does not read the stored prices: saving leaves the portions
  untouched, and the selector returns the price computed from the multipliers whether or
  not an override exists.
\<close>

theorem override_stored_not_read:
  assumes "portion \<in> set portions" and "prices (p_id portion) = Some priceStr" and "priceStr \<noteq> []"
  shows "getItemPortionPrice (savePrices gen menuItem portions prices st) (m_id menuItem) (p_id portion)
           = Some (parseFloat priceStr) \<and>
         getItemPortionPrice ((savePrices gen menuItem portions prices st)\<lparr>portionOptions := ps'\<rparr>)
           (m_id menuItem) (p_id portion) = Some (parseFloat priceStr) \<and>
         portionOptions (savePrices gen menuItem portions prices st) = portionOptions st \<and>
         getPortionPrice item (portionOptions (savePrices gen menuItem portions prices st)) p
           = Math_round (js_mult (js_div (m_price item) (Math_min (map p_priceMultiplier (portionOptions st))))
               (p_priceMultiplier p))"
proof -
  have a: "getItemPortionPrice (savePrices gen menuItem portions prices st) (m_id menuItem) (p_id portion)
           = Some (parseFloat priceStr)"
    unfolding savePrices_def handleSave_def
    using handleSave_calls_stores [where prices = prices and portion = portion, OF assms]
    by (simp add: Let_def)
  have b: "portionOptions (savePrices gen menuItem portions prices st) = portionOptions st"
    unfolding savePrices_def handleSave_def
    using handleSave_calls_frame by (simp add: Let_def)
  show ?thesis using a b by (simp add: getItemPortionPrice_def getPortionPrice_def)
qed

theorem override_stored_not_read_witness:
  "hd (portionOptions drinksTracked) \<in> set (portionOptions drinksTracked) \<and>
   pegPrices (p_id (hd (portionOptions drinksTracked))) = Some ''999'' \<and>
   getItemPortionPrice
     (savePrices exampleGen whisky (portionOptions drinksTracked) pegPrices drinksTracked)
     (m_id whisky) (p_id (hd (portionOptions drinksTracked))) = Some (Fin 999) \<and>
   getPortionPrice whisky
     (portionOptions (savePrices exampleGen whisky (portionOptions drinksTracked) pegPrices drinksTracked))
     (hd (portionOptions drinksTracked)) = Fin 150"
proof -
  let ?p = "hd (portionOptions drinksTracked)"
  have 1: "?p \<in> set (portionOptions drinksTracked)" by (simp add: drinksTracked_portions)
  have 2: "pegPrices (p_id ?p) = Some ''999''" by (simp add: drinksTracked_portions pegPrices_def)
  have 3: "''999'' \<noteq> []" by simp
  have 4: "Math_round (js_mult (js_div (m_price whisky)
             (Math_min (map p_priceMultiplier (portionOptions drinksTracked)))) (p_priceMultiplier ?p))
           = Fin 150"
    by (simp add: drinksTracked_portions whisky_def)
  note th = override_stored_not_read [where prices = pegPrices and portion = ?p, OF 1 2 3,
        of exampleGen whisky drinksTracked "[]" whisky ?p]
  from th have a: "getItemPortionPrice
     (savePrices exampleGen whisky (portionOptions drinksTracked) pegPrices drinksTracked)
     (m_id whisky) (p_id ?p) = Some (parseFloat ''999'')" by blast
  from th have b: "getPortionPrice whisky
     (portionOptions (savePrices exampleGen whisky (portionOptions drinksTracked) pegPrices drinksTracked))
     ?p = Math_round (js_mult (js_div (m_price whisky)
             (Math_min (map p_priceMultiplier (portionOptions drinksTracked)))) (p_priceMultiplier ?p))"
    by blast
  show ?thesis using 1 2 a b 4 by (simp add: parseFloat_999)
qed

lemma overrideStore_portions: "portionOptions overrideStore = portionOptions drinksTracked"
  unfolding overrideStore_def savePrices_def handleSave_def
  using handleSave_calls_frame by (simp add: Let_def)

lemma overrideStore_price:
  "getItemPortionPrice overrideStore (m_id whisky) (p_id (hd (portionOptions overrideStore))) = Some (Fin 999)"
proof -
  let ?p = "hd (portionOptions drinksTracked)"
  have 1: "?p \<in> set (portionOptions drinksTracked)" by (simp add: drinksTracked_portions)
  have 2: "pegPrices (p_id ?p) = Some ''999''" by (simp add: drinksTracked_portions pegPrices_def)
  have 3: "''999'' \<noteq> []" by simp
  show ?thesis
    unfolding overrideStore_portions
    unfolding overrideStore_def savePrices_def handleSave_def
    using handleSave_calls_stores [where prices = pegPrices and portion = ?p, OF 1 2 3]
    by (simp add: Let_def parseFloat_999)
qed

lemma overrideStore_computed:
  "getPortionPrice whisky (portionOptions overrideStore) (hd (portionOptions overrideStore)) = Fin 150"
  unfolding overrideStore_portions
  by (simp add: drinksTracked_portions getPortionPrice_def whisky_def)

theorem override_precedence_counterexample:
  "\<not> (getItemPortionPrice overrideStore (m_id whisky) (p_id (hd (portionOptions overrideStore))) = Some (Fin 999)
      \<longrightarrow> getPortionPrice whisky (portionOptions overrideStore) (hd (portionOptions overrideStore)) = Fin 999)"
  using overrideStore_price overrideStore_computed by simp

section \<open>Low-stock monitor\<close>

lemma listLowStockItems_rows:
  "map ls_inventoryItemId (listLowStockItems st) = map ii_id (lowStockRows st) \<and>
   map ls_currentStock (listLowStockItems st) = map ii_currentStock (lowStockRows st) \<and>
   map ls_unit (listLowStockItems st) = map ii_unit (lowStockRows st)"
  by (simp add: listLowStockItems_def comp_def)

text \<open>
  Claim C3. An inventory row is in the low-stock set exactly when it is a row of the
  store and its current stock is at most its threshold, where the threshold is
  \<open>item.lowStockThreshold ?? categoryDefaultThreshold ?? 5\<close>; the entries listed are
  those rows, in their order. In particular a row whose stock equals its (finite)
  threshold is in the set, and a row whose stock is the threshold plus one is not.
\<close>

theorem low_stock_membership:
  "(ii \<in> set (lowStockRows st) \<longleftrightarrow>
      ii \<in> set (inventoryItems st) \<and> js_le (ii_currentStock ii) (lowStockThresholdOf st ii)) \<and>
   lowStockThresholdOf st ii =
     (case ii_lowStockThreshold ii of
        Some t \<Rightarrow> t
      | None \<Rightarrow> (case categoryDefaultThreshold st ii of Some d \<Rightarrow> d | None \<Rightarrow> Fin 5)) \<and>
   map ls_inventoryItemId (listLowStockItems st) = map ii_id (lowStockRows st) \<and>
   map ls_currentStock (listLowStockItems st) = map ii_currentStock (lowStockRows st) \<and>
   map ls_unit (listLowStockItems st) = map ii_unit (lowStockRows st) \<and>
   (ii \<in> set (inventoryItems st) \<and> lowStockThresholdOf st ii = Fin t \<and> ii_currentStock ii = Fin t
      \<longrightarrow> ii \<in> set (lowStockRows st)) \<and>
   (lowStockThresholdOf st ii = Fin t \<and> ii_currentStock ii = Fin (t + 1)
      \<longrightarrow> ii \<notin> set (lowStockRows st))"
proof -
  have m: "ii \<in> set (lowStockRows st) \<longleftrightarrow>
      ii \<in> set (inventoryItems st) \<and> js_le (ii_currentStock ii) (lowStockThresholdOf st ii)"
    by (simp add: lowStockRows_def)
  have r: "lowStockThresholdOf st ii =
     (case ii_lowStockThreshold ii of
        Some t \<Rightarrow> t
      | None \<Rightarrow> (case categoryDefaultThreshold st ii of Some d \<Rightarrow> d | None \<Rightarrow> Fin 5))"
    by (simp add: lowStockThresholdOf_def)
  have a: "ii \<in> set (inventoryItems st) \<and> lowStockThresholdOf st ii = Fin t \<and>
      ii_currentStock ii = Fin t \<longrightarrow> ii \<in> set (lowStockRows st)"
    using m by simp
  have b: "lowStockThresholdOf st ii = Fin t \<and> ii_currentStock ii = Fin (t + 1)
      \<longrightarrow> ii \<notin> set (lowStockRows st)"
    using m by simp
  show ?thesis using m r a b listLowStockItems_rows [of st] by blast
qed

lemma stockedStore_tables:
  "inventoryItems (stockedStore th s) =
     [\<lparr>ii_id = ''id-iiiiiiii'', ii_menuItemId = ''whisky-id'', ii_currentStock = Fin s,
       ii_defaultBottleSize = Some (Fin 750), ii_unit = ml, ii_lowStockThreshold = th\<rparr>]"
  "menuItems (stockedStore th s) = [whisky]"
  "categories (stockedStore th s) = [\<lparr>c_id = ''c1'', c_name = ''Drinks''\<rparr>]"
  "inventoryCategories (stockedStore th s) =
     [\<lparr>ic_id = ''id-'', ic_categoryId = ''c1'', ic_unitType = ml, ic_lowStockThreshold = Fin 5\<rparr>]"
  by (simp_all add: stockedStore_def drinksTracked_items drinksTracked_menu drinksTracked_categories)

lemma stockedStore_threshold:
  "lowStockThresholdOf (stockedStore None s) (hd (inventoryItems (stockedStore None s))) = Fin 5"
  "lowStockThresholdOf (stockedStore (Some t) s) (hd (inventoryItems (stockedStore (Some t) s))) = t"
  by (simp_all add: lowStockThresholdOf_def categoryDefaultThreshold_def stockedStore_tables whisky_def)

theorem low_stock_membership_witness:
  "lowStockThresholdOf (stockedStore None 5) (hd (inventoryItems (stockedStore None 5))) = Fin 5 \<and>
   hd (inventoryItems (stockedStore None 5)) \<in> set (lowStockRows (stockedStore None 5)) \<and>
   hd (inventoryItems (stockedStore None (5 + 1))) \<notin> set (lowStockRows (stockedStore None (5 + 1))) \<and>
   hd (inventoryItems (stockedStore (Some (Fin 0)) 0)) \<in> set (lowStockRows (stockedStore (Some (Fin 0)) 0)) \<and>
   hd (inventoryItems (stockedStore (Some (Fin 0)) (0 + 1)))
     \<notin> set (lowStockRows (stockedStore (Some (Fin 0)) (0 + 1)))"
proof -
  have mem: "hd (inventoryItems (stockedStore th s)) \<in> set (inventoryItems (stockedStore th s))"
    for th s by (simp add: stockedStore_tables)
  have st: "ii_currentStock (hd (inventoryItems (stockedStore th s))) = Fin s" for th s
    by (simp add: stockedStore_tables)
  have a: "hd (inventoryItems (stockedStore None 5)) \<in> set (lowStockRows (stockedStore None 5))"
    using low_stock_membership [of "hd (inventoryItems (stockedStore None 5))" "stockedStore None 5" 5]
      mem [of None 5] st [of None 5] stockedStore_threshold(1) [of 5] by blast
  have b: "hd (inventoryItems (stockedStore None (5 + 1))) \<notin> set (lowStockRows (stockedStore None (5 + 1)))"
    using low_stock_membership [of "hd (inventoryItems (stockedStore None (5 + 1)))"
        "stockedStore None (5 + 1)" 5]
      st [of None "5 + 1"] stockedStore_threshold(1) [of "5 + 1"] by blast
  have c: "hd (inventoryItems (stockedStore (Some (Fin 0)) 0))
      \<in> set (lowStockRows (stockedStore (Some (Fin 0)) 0))"
    using low_stock_membership [of "hd (inventoryItems (stockedStore (Some (Fin 0)) 0))"
        "stockedStore (Some (Fin 0)) 0" 0]
      mem [of "Some (Fin 0)" 0] st [of "Some (Fin 0)" 0] stockedStore_threshold(2) [of "Fin 0" 0]
    by blast
  have d: "hd (inventoryItems (stockedStore (Some (Fin 0)) (0 + 1)))
      \<notin> set (lowStockRows (stockedStore (Some (Fin 0)) (0 + 1)))"
    using low_stock_membership [of "hd (inventoryItems (stockedStore (Some (Fin 0)) (0 + 1)))"
        "stockedStore (Some (Fin 0)) (0 + 1)" 0]
      st [of "Some (Fin 0)" "0 + 1"] stockedStore_threshold(2) [of "Fin 0" "0 + 1"]
    by blast
  show ?thesis using a b c d stockedStore_threshold(1) [of 5] by blast
qed

text \<open>
  The flag of a stock card agrees with the set's test whenever the row has a threshold
  of its own that is neither zero nor \<open>NaN\<close>.
\<close>

lemma isLow_agrees:
  assumes "ii_lowStockThreshold ii = Some t" and "truthy t"
  shows "isLow ii \<longleftrightarrow> js_le (ii_currentStock ii) (lowStockThresholdOf st ii)"
  using assms by (simp add: isLow_def resolvedThreshold_def lowStockThresholdOf_def)

section \<open>Adding stock\<close>

lemma handleAddStock_submits:
  assumes "stockMenuItemId ui \<noteq> []" "stockQuantity ui \<noteq> [] \<or> bottleCount ui \<noteq> []"
    and "getInventoryByMenuItemId st (stockMenuItemId ui) = Some invItem"
  shows "fst (snd (handleAddStock ui st)) =
     (let q = (if bottleCount ui \<noteq> [] \<and> bottleSize ui \<noteq> [] then
                 js_mult (parseFloat (bottleCount ui))
                   (parseFloat (if bottleSize ui = ''custom'' then customBottleSize ui else bottleSize ui))
               else if stockQuantity ui \<noteq> [] then parseFloat (stockQuantity ui) else Fin 0)
      in if js_le q (Fin 0) then []
         else [AddStock (stockMenuItemId ui) q (ii_unit invItem)
                (if bottleCount ui \<noteq> [] then
                          bottleCount ui @ '' bottles '' @ [CHR 0xD7] @ '' '' @
                          (if bottleSize ui = ''custom'' then customBottleSize ui else bottleSize ui) @
                          ''ml'' @ (if stockNotes ui \<noteq> [] then '' - '' @ stockNotes ui else [])
                        else stockNotes ui)])"
  using assms by (auto simp: handleAddStock_def Let_def)

lemma handleAddStock_rejects:
  assumes "stockMenuItemId ui = [] \<or> (stockQuantity ui = [] \<and> bottleCount ui = []) \<or>
           getInventoryByMenuItemId st (stockMenuItemId ui) = None"
  shows "fst (snd (handleAddStock ui st)) = []"
  using assms by (auto simp: handleAddStock_def Let_def split: option.splits)

lemma submittedQuantity_simps [simp]:
  "submittedQuantity [] = None"
  "submittedQuantity [AddStock i q u n] = Some q"
  by (simp_all add: submittedQuantity_def)

text \<open>
  Claim C6. When both bottle fields are filled in, a submitted quantity is the bottle
  count times the bottle size (the custom size when that is selected), whatever the
  direct-quantity field holds, and it is submitted whenever the item is tracked and the
  product is positive; the direct quantity is submitted only when a bottle field is
  empty. Three bottles of 750 ml submit 2250, as a direct entry of 2250 does, and both
  leave the same store; only the note differs.
\<close>

theorem bottle_entry_resolution:
  "(bottleCount ui \<noteq> [] \<and> bottleSize ui \<noteq> [] \<and>
      submittedQuantity (fst (snd (handleAddStock ui st))) = Some q \<longrightarrow>
    q = js_mult (parseFloat (bottleCount ui))
          (parseFloat (if bottleSize ui = ''custom'' then customBottleSize ui else bottleSize ui))) \<and>
   (\<not> (bottleCount ui \<noteq> [] \<and> bottleSize ui \<noteq> []) \<and>
      submittedQuantity (fst (snd (handleAddStock ui st))) = Some q \<longrightarrow>
    q = parseFloat (stockQuantity ui)) \<and>
   (bottleCount ui \<noteq> [] \<and> bottleSize ui \<noteq> [] \<and> stockMenuItemId ui \<noteq> [] \<and>
      getInventoryByMenuItemId st (stockMenuItemId ui) \<noteq> None \<and>
      \<not> js_le (js_mult (parseFloat (bottleCount ui))
            (parseFloat (if bottleSize ui = ''custom'' then customBottleSize ui else bottleSize ui)))
          (Fin 0) \<longrightarrow>
    submittedQuantity (fst (snd (handleAddStock ui st))) =
      Some (js_mult (parseFloat (bottleCount ui))
            (parseFloat (if bottleSize ui = ''custom'' then customBottleSize ui else bottleSize ui)))) \<and>
   (bottleCount ui = ''3'' \<and> bottleSize ui = ''750'' \<longrightarrow>
      map withoutNotes (fst (snd (handleAddStock ui st))) =
        map withoutNotes
          (fst (snd (handleAddStock (ui\<lparr>bottleCount := [], stockQuantity := ''2250''\<rparr>) st))) \<and>
      submittedQuantity (fst (snd (handleAddStock ui st))) \<in> {None, Some (Fin 2250)} \<and>
      performAll gen (fst (snd (handleAddStock ui st))) st =
        performAll gen (fst (snd (handleAddStock (ui\<lparr>bottleCount := [], stockQuantity := ''2250''\<rparr>) st))) st)"
proof -
  let ?calls = "fst (snd (handleAddStock ui st))"
  let ?bq = "js_mult (parseFloat (bottleCount ui))
          (parseFloat (if bottleSize ui = ''custom'' then customBottleSize ui else bottleSize ui))"
  have rej: "submittedQuantity ?calls = None"
    if "stockMenuItemId ui = [] \<or> (stockQuantity ui = [] \<and> bottleCount ui = []) \<or>
           getInventoryByMenuItemId st (stockMenuItemId ui) = None"
    using handleAddStock_rejects [OF that] by simp
  have acc: "submittedQuantity ?calls =
      (let q = (if bottleCount ui \<noteq> [] \<and> bottleSize ui \<noteq> [] then ?bq
               else if stockQuantity ui \<noteq> [] then parseFloat (stockQuantity ui) else Fin 0)
       in if js_le q (Fin 0) then None else Some q)"
    if "stockMenuItemId ui \<noteq> []" "stockQuantity ui \<noteq> [] \<or> bottleCount ui \<noteq> []"
      "getInventoryByMenuItemId st (stockMenuItemId ui) = Some invItem" for invItem
    using handleAddStock_submits [OF that] by (simp add: Let_def)
  have c1: "bottleCount ui \<noteq> [] \<and> bottleSize ui \<noteq> [] \<and> submittedQuantity ?calls = Some q \<longrightarrow> q = ?bq"
  proof (cases "stockMenuItemId ui = [] \<or> (stockQuantity ui = [] \<and> bottleCount ui = []) \<or>
           getInventoryByMenuItemId st (stockMenuItemId ui) = None")
    case True
    then show ?thesis using rej by simp
  next
    case False
    then obtain invItem where "getInventoryByMenuItemId st (stockMenuItemId ui) = Some invItem" by auto
    with False acc [of invItem] show ?thesis by (auto simp: Let_def split: if_splits)
  qed
  have c2: "\<not> (bottleCount ui \<noteq> [] \<and> bottleSize ui \<noteq> []) \<and> submittedQuantity ?calls = Some q
      \<longrightarrow> q = parseFloat (stockQuantity ui)"
  proof (cases "stockMenuItemId ui = [] \<or> (stockQuantity ui = [] \<and> bottleCount ui = []) \<or>
           getInventoryByMenuItemId st (stockMenuItemId ui) = None")
    case True
    then show ?thesis using rej by simp
  next
    case False
    then obtain invItem where "getInventoryByMenuItemId st (stockMenuItemId ui) = Some invItem" by auto
    with False acc [of invItem] show ?thesis by (auto simp: Let_def split: if_splits)
  qed
  have c3: "bottleCount ui \<noteq> [] \<and> bottleSize ui \<noteq> [] \<and> stockMenuItemId ui \<noteq> [] \<and>
      getInventoryByMenuItemId st (stockMenuItemId ui) \<noteq> None \<and> \<not> js_le ?bq (Fin 0) \<longrightarrow>
    submittedQuantity ?calls = Some ?bq"
  proof (intro impI, elim conjE)
    assume h: "bottleCount ui \<noteq> []" "bottleSize ui \<noteq> []" "stockMenuItemId ui \<noteq> []"
      "getInventoryByMenuItemId st (stockMenuItemId ui) \<noteq> None" "\<not> js_le ?bq (Fin 0)"
    then obtain invItem where "getInventoryByMenuItemId st (stockMenuItemId ui) = Some invItem" by auto
    with h acc [of invItem] show "submittedQuantity ?calls = Some ?bq" by (simp add: Let_def)
  qed
  have c4: "bottleCount ui = ''3'' \<and> bottleSize ui = ''750'' \<longrightarrow>
      map withoutNotes ?calls =
        map withoutNotes
          (fst (snd (handleAddStock (ui\<lparr>bottleCount := [], stockQuantity := ''2250''\<rparr>) st))) \<and>
      submittedQuantity ?calls \<in> {None, Some (Fin 2250)} \<and>
      performAll gen ?calls st =
        performAll gen (fst (snd (handleAddStock (ui\<lparr>bottleCount := [], stockQuantity := ''2250''\<rparr>) st))) st"
  proof (intro impI, elim conjE)
    assume b: "bottleCount ui = ''3''" "bottleSize ui = ''750''"
    let ?ui' = "ui\<lparr>bottleCount := [], stockQuantity := ''2250''\<rparr>"
    show "map withoutNotes ?calls = map withoutNotes (fst (snd (handleAddStock ?ui' st))) \<and>
      submittedQuantity ?calls \<in> {None, Some (Fin 2250)} \<and>
      performAll gen ?calls st = performAll gen (fst (snd (handleAddStock ?ui' st))) st"
    proof (cases "stockMenuItemId ui = [] \<or> getInventoryByMenuItemId st (stockMenuItemId ui) = None")
      case True
      then have "?calls = []" "fst (snd (handleAddStock ?ui' st)) = []"
        by (auto intro!: handleAddStock_rejects)
      then show ?thesis by simp
    next
      case False
      then obtain invItem where i: "getInventoryByMenuItemId st (stockMenuItemId ui) = Some invItem"
        and n: "stockMenuItemId ui \<noteq> []" by auto
      have 1: "?calls = [AddStock (stockMenuItemId ui) (Fin 2250) (ii_unit invItem)
                 (''3 bottles '' @ [CHR 0xD7] @ '' 750ml'' @
                    (if stockNotes ui \<noteq> [] then '' - '' @ stockNotes ui else []))]"
        using handleAddStock_submits [OF n _ i] b
        by (simp add: Let_def parseFloat_3 parseFloat_750)
      have 2: "fst (snd (handleAddStock ?ui' st)) =
          [AddStock (stockMenuItemId ui) (Fin 2250) (ii_unit invItem) (stockNotes ui)]"
        using handleAddStock_submits [of ?ui' st invItem] n i
        by (simp add: Let_def parseFloat_2250)
      show ?thesis unfolding 1 2 by simp
    qed
  qed
  show ?thesis using c1 c2 c3 c4 by blast
qed


theorem bottle_entry_resolution_witness:
  "bottleCount bottleForm = ''3'' \<and> bottleSize bottleForm = ''750'' \<and>
   stockQuantity bottleForm = ''10'' \<and>
   submittedQuantity (fst (snd (handleAddStock bottleForm drinksTracked))) = Some (Fin 2250) \<and>
   map withoutNotes (fst (snd (handleAddStock bottleForm drinksTracked))) =
     map withoutNotes (fst (snd (handleAddStock directForm drinksTracked))) \<and>
   performAll exampleGen (fst (snd (handleAddStock bottleForm drinksTracked))) drinksTracked =
     performAll exampleGen (fst (snd (handleAddStock directForm drinksTracked))) drinksTracked"
proof -
  have f: "bottleCount bottleForm = ''3''" "bottleSize bottleForm = ''750''"
    "stockQuantity bottleForm = ''10''" "stockMenuItemId bottleForm = ''whisky-id''"
    by (simp_all add: bottleForm_def drinksForm_def)
  have d: "bottleForm\<lparr>bottleCount := [], stockQuantity := ''2250''\<rparr> = directForm"
    by (simp add: bottleForm_def directForm_def drinksForm_def)
  have t: "getInventoryByMenuItemId drinksTracked (stockMenuItemId bottleForm) \<noteq> None"
    by (simp add: f getInventoryByMenuItemId_def drinksTracked_items)
  have q: "js_mult (parseFloat (bottleCount bottleForm))
             (parseFloat (if bottleSize bottleForm = ''custom'' then customBottleSize bottleForm
                          else bottleSize bottleForm)) = Fin 2250"
    by (simp add: f parseFloat_3 parseFloat_750)
  have p: "\<not> js_le (Fin 2250) (Fin 0)" by simp
  note th = bottle_entry_resolution [of bottleForm drinksTracked "Fin 2250" exampleGen]
  from th f t p have a: "submittedQuantity (fst (snd (handleAddStock bottleForm drinksTracked)))
      = Some (Fin 2250)" unfolding q by simp
  from th f have b: "map withoutNotes (fst (snd (handleAddStock bottleForm drinksTracked))) =
        map withoutNotes (fst (snd (handleAddStock directForm drinksTracked)))"
    and c: "performAll exampleGen (fst (snd (handleAddStock bottleForm drinksTracked))) drinksTracked =
        performAll exampleGen (fst (snd (handleAddStock directForm drinksTracked))) drinksTracked"
    unfolding d by blast+
  show ?thesis using f a b c by simp
qed

text \<open>
  Claim C5, at the input the code gets wrong. Three bottles of a custom size that was
  left empty: the quantity is \<open>3 * NaN\<close>, the test \<open>totalQuantity <= 0\<close> is false for
  \<open>NaN\<close>, and the handler reports success and submits \<open>NaN\<close> to \<open>addStock\<close>.
\<close>

theorem addStock_accepts_NaN:
  "fst (handleAddStock customEmptyForm drinksTracked) = Success ''Stock added successfully'' \<and>
   fst (snd (handleAddStock customEmptyForm drinksTracked)) =
     [AddStock ''whisky-id'' NaN ml (''3 bottles '' @ [CHR 0xD7] @ '' ml'')]"
  by (simp add: handleAddStock_def customEmptyForm_def drinksForm_def getInventoryByMenuItemId_def
      drinksTracked_items parseFloat_empty parseFloat_3)

end
